theory Spec2Isabelle
  imports Complex_Main "HOL-Library.AList" "HOL-Library.Monad_Syntax"
begin

section \<open>JavaScript values\<close>

text \<open>
  A JavaScript \<^verbatim>\<open>number\<close> is modelled as a real number or one of the three special
  values of IEEE-754: the two infinities and NaN. The component can produce them by
  dividing by a zero capacity, by reading a capacity that was never assigned, and by
  overflow: the finite result of an operation overflows to an infinity when its
  magnitude reaches \<open>2^1024 - 2^970\<close>, the bound from which a double rounds to
  infinity (\<open>js_round\<close>). Below that bound rounding is not modelled, nor is the sign
  of zero: a finite result is the exact real.
\<close>

datatype jsnum = Num real | PosInf | NegInf | NaN

definition overflowAt :: real where
  "overflowAt = 2 ^ 1024 - 2 ^ 970"

definition js_round :: "real \<Rightarrow> jsnum" where
  "js_round r =
     (if overflowAt \<le> r then PosInf else if r \<le> - overflowAt then NegInf else Num r)"

fun js_neg :: "jsnum \<Rightarrow> jsnum" where
  "js_neg (Num a) = Num (- a)"
| "js_neg PosInf = NegInf"
| "js_neg NegInf = PosInf"
| "js_neg NaN = NaN"

fun js_add :: "jsnum \<Rightarrow> jsnum \<Rightarrow> jsnum" where
  "js_add NaN _ = NaN"
| "js_add _ NaN = NaN"
| "js_add (Num a) (Num b) = js_round (a + b)"
| "js_add PosInf NegInf = NaN"
| "js_add NegInf PosInf = NaN"
| "js_add PosInf _ = PosInf"
| "js_add _ PosInf = PosInf"
| "js_add NegInf _ = NegInf"
| "js_add _ NegInf = NegInf"

definition js_sub :: "jsnum \<Rightarrow> jsnum \<Rightarrow> jsnum" where
  "js_sub a b = js_add a (js_neg b)"

fun js_mul :: "jsnum \<Rightarrow> jsnum \<Rightarrow> jsnum" where
  "js_mul NaN _ = NaN"
| "js_mul _ NaN = NaN"
| "js_mul (Num a) (Num b) = js_round (a * b)"
| "js_mul (Num a) PosInf = (if a = 0 then NaN else if 0 < a then PosInf else NegInf)"
| "js_mul (Num a) NegInf = (if a = 0 then NaN else if 0 < a then NegInf else PosInf)"
| "js_mul PosInf (Num b) = (if b = 0 then NaN else if 0 < b then PosInf else NegInf)"
| "js_mul NegInf (Num b) = (if b = 0 then NaN else if 0 < b then NegInf else PosInf)"
| "js_mul PosInf PosInf = PosInf"
| "js_mul PosInf NegInf = NegInf"
| "js_mul NegInf PosInf = NegInf"
| "js_mul NegInf NegInf = PosInf"

fun js_div :: "jsnum \<Rightarrow> jsnum \<Rightarrow> jsnum" where
  "js_div NaN _ = NaN"
| "js_div _ NaN = NaN"
| "js_div (Num a) (Num b) =
     (if b \<noteq> 0 then js_round (a / b)
      else if a = 0 then NaN else if 0 < a then PosInf else NegInf)"
| "js_div (Num a) PosInf = Num 0"
| "js_div (Num a) NegInf = Num 0"
| "js_div PosInf (Num b) = (if 0 \<le> b then PosInf else NegInf)"
| "js_div NegInf (Num b) = (if 0 \<le> b then NegInf else PosInf)"
| "js_div _ _ = NaN"

text \<open>Comparisons: every comparison with NaN is false.\<close>

fun js_le :: "jsnum \<Rightarrow> jsnum \<Rightarrow> bool" where
  "js_le NaN _ = False"
| "js_le _ NaN = False"
| "js_le (Num a) (Num b) = (a \<le> b)"
| "js_le NegInf _ = True"
| "js_le _ PosInf = True"
| "js_le _ _ = False"

definition js_ge :: "jsnum \<Rightarrow> jsnum \<Rightarrow> bool" where
  "js_ge a b = js_le b a"

fun js_lt :: "jsnum \<Rightarrow> jsnum \<Rightarrow> bool" where
  "js_lt NaN _ = False"
| "js_lt _ NaN = False"
| "js_lt (Num a) (Num b) = (a < b)"
| "js_lt PosInf _ = False"
| "js_lt _ NegInf = False"
| "js_lt _ _ = True"

fun isNaN :: "jsnum \<Rightarrow> bool" where
  "isNaN NaN = True"
| "isNaN _ = False"

section \<open>Level Position Calculator\<close>

text \<open>
  Modelled from the spec: \<^verbatim>\<open>SvgLimits\<close> is declared in liquid-level-widget.models, which
  is not under src/. It is the spec's pair of coordinate limits (min, max) of a shape,
  the positions of the liquid surface at 0 and at 100 percent, written as literals in the
  Geometry Table: finite numbers, in either order. The fields are \<open>min_l\<close> and
  \<open>max_l\<close> here, since \<open>min\<close> and \<open>max\<close> are functions of HOL.
\<close>

record SvgLimits =
  min_l :: real
  max_l :: real

text \<open>
  \<^verbatim>\<open>
  private calculatePosition(percentage: number, limits: SvgLimits): number {
    if (percentage >= 100) {
      return limits.max;
    } if (percentage <= 0) {
      return limits.min;
    }
    return limits.min + (percentage / 100) * (limits.max - limits.min);
  }
  \<close>
\<close>

definition calculatePosition :: "jsnum \<Rightarrow> SvgLimits \<Rightarrow> jsnum" where
  "calculatePosition percentage limits =
     (if js_ge percentage (Num 100) then Num (max_l limits)
      else if js_le percentage (Num 0) then Num (min_l limits)
      else js_add (Num (min_l limits))
             (js_mul (js_div percentage (Num 100))
                     (js_sub (Num (max_l limits)) (Num (min_l limits)))))"


section \<open>Values of any type\<close>

text \<open>
  The measurement's value (\<^verbatim>\<open>data[1]: any\<close>) and the values read from entity attributes
  are untyped at run time. \<open>JObject\<close> stands for any object or array; the component
  never looks inside one.
\<close>

datatype jsval = JUndefined | JNull | JBoolean bool | JNumber jsnum | JString string | JObject nat

text \<open>
  Modelled from the spec: \<^verbatim>\<open>isDefined\<close>, \<^verbatim>\<open>isDefinedAndNotNull\<close>, \<^verbatim>\<open>isNumber\<close> and
  \<^verbatim>\<open>isString\<close> are imported from @core/utils, which is not under src/. They are the
  tests their names say: the spec's "undefined/null value", "defined, non-null value" and
  "non-numeric" (\<^verbatim>\<open>typeof value === 'number'\<close>, which NaN and the infinities pass).
\<close>

definition isDefined :: "jsval \<Rightarrow> bool" where
  "isDefined v = (v \<noteq> JUndefined)"

definition isDefinedAndNotNull :: "jsval \<Rightarrow> bool" where
  "isDefinedAndNotNull v = (v \<noteq> JUndefined \<and> v \<noteq> JNull)"

fun isNumber :: "jsval \<Rightarrow> bool" where
  "isNumber (JNumber _) = True"
| "isNumber _ = False"

fun isString :: "jsval \<Rightarrow> bool" where
  "isString (JString _) = True"
| "isString _ = False"

text \<open>What a conditional makes of a value: \<^verbatim>\<open>if (v)\<close>, \<^verbatim>\<open>v || d\<close>, \<^verbatim>\<open>v && w\<close>.\<close>

fun truthy :: "jsval \<Rightarrow> bool" where
  "truthy JUndefined = False"
| "truthy JNull = False"
| "truthy (JBoolean b) = b"
| "truthy (JNumber n) = (n \<noteq> Num 0 \<and> n \<noteq> NaN)"
| "truthy (JString s) = (s \<noteq> [])"
| "truthy (JObject _) = True"

text \<open>The number inside a value that \<open>isNumber\<close> accepted, and the text inside a string.\<close>

fun asNumber :: "jsval \<Rightarrow> jsnum" where
  "asNumber (JNumber n) = n"
| "asNumber _ = NaN"

fun asString :: "jsval \<Rightarrow> string" where
  "asString (JString s) = s"
| "asString _ = []"

text \<open>\<^verbatim>\<open>d || 0\<close> on a number: 0 and NaN are falsy.\<close>

definition or_zero :: "jsnum \<Rightarrow> jsnum" where
  "or_zero d = (if truthy (JNumber d) then d else Num 0)"

section \<open>The rendered markup\<close>

text \<open>
  The host element's content after \<^verbatim>\<open>html(svg)\<close> is the list of its descendant elements
  in document order. An element carries what jQuery reads and writes here: its tag, its
  classes, its attributes (\<^verbatim>\<open>attr\<close>, \<^verbatim>\<open>removeAttr\<close>), its style properties (\<^verbatim>\<open>css\<close>),
  the queue of its animations (\<^verbatim>\<open>animate\<close>: property, target, duration in ms) and the
  markup last written into it (\<^verbatim>\<open>html\<close>), which is kept as text.
\<close>

record element =
  tag :: string
  classes :: "string list"
  attr :: "string \<rightharpoonup> string"
  css :: "string \<rightharpoonup> jsval"
  fx :: "(string \<times> jsnum \<times> nat) list"
  html :: string

definition hasClass :: "string \<Rightarrow> element \<Rightarrow> bool" where
  "hasClass cl e = (cl \<in> set (classes e))"

definition hasTag :: "string \<Rightarrow> element \<Rightarrow> bool" where
  "hasTag t e = (tag e = t)"

definition set_css :: "string \<Rightarrow> jsval \<Rightarrow> element \<Rightarrow> element" where
  "set_css prop v e = e\<lparr>css := (css e)(prop \<mapsto> v)\<rparr>"

definition animate :: "string \<Rightarrow> jsnum \<Rightarrow> nat \<Rightarrow> element \<Rightarrow> element" where
  "animate prop v duration e = e\<lparr>fx := fx e @ [(prop, v, duration)]\<rparr>"

definition set_attr :: "string \<Rightarrow> string \<Rightarrow> element \<Rightarrow> element" where
  "set_attr name v e = e\<lparr>attr := (attr e)(name \<mapsto> v)\<rparr>"

definition removeAttr :: "string \<Rightarrow> element \<Rightarrow> element" where
  "removeAttr name e = e\<lparr>attr := (attr e)(name := None)\<rparr>"

definition set_html :: "string \<Rightarrow> element \<Rightarrow> element" where
  "set_html markup e = e\<lparr>html := markup\<rparr>"

text \<open>A jQuery call on a selection: every selected element is changed, in place.\<close>

definition each :: "(element \<Rightarrow> bool) \<Rightarrow> (element \<Rightarrow> element) \<Rightarrow> element list \<Rightarrow> element list" where
  "each sel f els = map (\<lambda>e. if sel e then f e else e) els"

section \<open>Settings and collaborators\<close>

text \<open>
  Modelled from the spec: the enums of liquid-level-widget.models are not under src/.
  \<^verbatim>\<open>LiquidWidgetDataSourceType\<close> is the spec's source of a value, a static constant or
  an attribute. \<^verbatim>\<open>LevelCardLayout\<close> is the spec's layout mode {none, percentage,
  absolute}; the component names \<^verbatim>\<open>absolute\<close> and \<^verbatim>\<open>percentage\<close>. \<^verbatim>\<open>ConversionType\<close>
  is the spec's conversion direction {to-normalized, from-normalized}.
\<close>

datatype LiquidWidgetDataSourceType =
  LiquidWidgetDataSourceType_static | LiquidWidgetDataSourceType_attribute

datatype LevelCardLayout =
  LevelCardLayout_none | LevelCardLayout_percentage | LevelCardLayout_absolute

datatype ConversionType = ConversionType_to | ConversionType_from

text \<open>
  Modelled from the spec: \<^verbatim>\<open>CapacityUnits\<close> and \<^verbatim>\<open>Shapes\<close> (not under src/) are string
  enums, so a configured unit or shape is a string; the two members the component
  compares with, \<^verbatim>\<open>CapacityUnits.percent\<close> and \<^verbatim>\<open>Shapes.vCylinder\<close>, are parameters
  below. Colour and font settings are opaque to the component and passed on to the
  collaborators that read them.
\<close>

type_synonym CapacityUnits = string
type_synonym Shapes = string
type_synonym ColorSettings = string
type_synonym Font = string
type_synonym ComponentStyle = "(string \<times> string) list"

text \<open>
  Modelled from the spec: \<^verbatim>\<open>LevelCardWidgetSettings\<close> is declared in
  liquid-level-widget.models. The record has the fields the component reads, with the
  types the component uses them at; it stands for the settings after
  \<^verbatim>\<open>{...levelCardDefaultSettings, ...ctx.settings}\<close>. The colour and date-format settings
  carry the suffix \<open>_cfg\<close>: the component keeps a processor of the same name.
  \<^verbatim>\<open>SvgInfo\<close> is an entry of the Geometry Table: the reference of the template and the
  limits. \<^verbatim>\<open>EntityId\<close> is an entity type and an identity (\<open>id'\<close>, since \<open>id\<close> is a
  function of HOL).
\<close>

record LevelCardWidgetSettings =
  tankSelectionType :: LiquidWidgetDataSourceType
  selectedShape :: Shapes
  shapeAttributeName :: string
  tankColor_cfg :: ColorSettings
  datasourceUnits :: CapacityUnits
  layout :: LevelCardLayout
  volumeSource :: LiquidWidgetDataSourceType
  volumeConstant :: jsnum
  volumeAttributeName :: string
  volumeUnits :: CapacityUnits
  volumeFont :: Font
  volumeColor :: string
  units :: CapacityUnits
  widgetUnitsSource :: LiquidWidgetDataSourceType
  widgetUnitsAttributeName :: string
  liquidColor_cfg :: ColorSettings
  valueFont :: Font
  valueColor_cfg :: ColorSettings
  decimals :: jsnum
  showBackgroundOverlay :: bool
  backgroundOverlayColor_cfg :: ColorSettings
  showTooltip :: bool
  showTooltipLevel :: bool
  tooltipUnits :: CapacityUnits
  tooltipLevelDecimals :: jsnum
  tooltipLevelFont :: Font
  tooltipLevelColor_cfg :: ColorSettings
  showTooltipDate :: bool
  tooltipDateFormat_cfg :: string
  tooltipDateFont :: Font
  tooltipDateColor :: string

record SvgInfo =
  svg_url :: string
  limits :: SvgLimits

record EntityId =
  entityType :: string
  id' :: string

record Datasource =
  ds_entityType :: string
  ds_entityId :: string

type_synonym attributes = "(string \<times> jsval) list"

text \<open>
  An \<^verbatim>\<open>Observable\<close> of this component emits at most once: \<^verbatim>\<open>of(x)\<close> emits \<open>x\<close>, a
  request emits its answer, or nothing when it fails.
\<close>

datatype 'a observable = Emit 'a | Silent

fun map_observable :: "('a \<Rightarrow> 'b) \<Rightarrow> 'a observable \<Rightarrow> 'b observable" where
  "map_observable f (Emit x) = Emit (f x)"
| "map_observable f Silent = Silent"

text \<open>
  Modelled from the spec: the colour processor exposes \<^verbatim>\<open>update(value)\<close> and the current
  colour, the date-format processor \<^verbatim>\<open>update(timestamp)\<close> and the formatted string;
  both classes are outside src/. What \<^verbatim>\<open>update\<close> and \<^verbatim>\<open>fromSettings\<close> compute is a
  parameter below. A tooltip instance has a content, not yet set on a fresh one.
\<close>

record ColorProcessor =
  cp_settings :: ColorSettings
  color :: string

record DateFormatProcessor =
  df_settings :: string
  formatted :: string

record ITooltipsterInstance =
  tt_content :: "string option"

text \<open>
  What the component imports and is injected with, none of it under src/: the functions
  and tables of liquid-level-widget.models, the constants of the two enums the component
  compares with, \<^verbatim>\<open>NULL_UUID\<close>, the attribute and resource services, the colour and
  date-format processors, the style helpers, the translation service, jQuery's parser of
  markup and two built-ins of JavaScript (\<^verbatim>\<open>toFixed\<close>, and \<^verbatim>\<open>Number\<close> on strings and
  objects). Every property below is proved for all of them.

  Modelled from the spec: \<^verbatim>\<open>convertLiters\<close> may fail (the spec's InvalidUnit condition:
  an unknown unit "fails" and "must be surfaced"); \<open>None\<close> is the exception. \<^verbatim>\<open>toFixed\<close>
  fails with a RangeError on a number of digits out of range.
\<close>

record env =
  convertLiters :: "jsnum \<Rightarrow> jsval \<Rightarrow> ConversionType \<Rightarrow> jsnum option"
  createAbsoluteLayout :: "string \<times> string \<Rightarrow> string \<times> string \<Rightarrow> jsval \<Rightarrow> string"
  createPercentLayout :: "string \<Rightarrow> string \<Rightarrow> string"
  extractValue :: "attributes \<Rightarrow> string \<Rightarrow> jsval \<Rightarrow> jsval"
  svgMapping :: "jsval \<rightharpoonup> SvgInfo"
  CapacityUnits_percent :: CapacityUnits
  Shapes_vCylinder :: Shapes
  NULL_UUID :: string
  getEntityAttributes :: "EntityId \<Rightarrow> string list \<Rightarrow> attributes observable"
  loadJsonResource :: "string \<Rightarrow> jsval observable"
  parseHTML :: "string \<Rightarrow> element list"
  cp_fromSettings :: "ColorSettings \<Rightarrow> ColorProcessor"
  cp_update :: "ColorProcessor \<Rightarrow> jsval \<Rightarrow> ColorProcessor"
  df_fromSettings :: "string \<Rightarrow> DateFormatProcessor"
  df_update :: "DateFormatProcessor \<Rightarrow> jsnum \<Rightarrow> DateFormatProcessor"
  inlineTextStyle :: "Font \<Rightarrow> ComponentStyle"
  cssTextFromInlineStyle :: "ComponentStyle \<Rightarrow> string"
  translate_instant :: "string \<Rightarrow> string"
  toFixed :: "jsnum \<Rightarrow> jsnum \<Rightarrow> string option"
  coerceToNumber :: "jsval \<Rightarrow> jsnum"

text \<open>\<^verbatim>\<open>Number(v)\<close>.\<close>

fun js_Number :: "env \<Rightarrow> jsval \<Rightarrow> jsnum" where
  "js_Number env JUndefined = NaN"
| "js_Number env JNull = Num 0"
| "js_Number env (JBoolean b) = Num (if b then 1 else 0)"
| "js_Number env (JNumber n) = n"
| "js_Number env v = coerceToNumber env v"

text \<open>\<^verbatim>\<open>{...style, key: v}\<close>: the key keeps its place when the style has it already.\<close>

definition spread_with :: "ComponentStyle \<Rightarrow> string \<Rightarrow> string \<Rightarrow> ComponentStyle" where
  "spread_with st k v = AList.update k v st"

section \<open>The component\<close>

text \<open>
  The widget context: the settings (merged with the defaults), the data sources and, for
  each data source, its series of (timestamp, value) pairs.
\<close>

record WidgetContext =
  ctx_settings :: LevelCardWidgetSettings
  datasources :: "Datasource list"
  ctx_data :: "(jsnum \<times> jsval) list list"

text \<open>
  The fields of \<^verbatim>\<open>LiquidLevelWidgetComponent\<close>. A field that the code tests before use is
  an option (\<open>None\<close>: never assigned); \<open>svg\<close> says whether \<^verbatim>\<open>this.svg\<close> was assigned (a
  jQuery object is truthy even when it wraps no element; it wraps the elements of tag
  \<^verbatim>\<open>svg\<close>); \<open>overlayContainer\<close> is the class of the elements that jQuery object wraps;
  \<open>nativeElement\<close> is the content of the host element. Three fields record what leaves
  the component: the attribute requests, the resource requests and the click handler.

  A method that mutates the component takes it and returns it. A method in which an
  exception can escape (a conversion or \<^verbatim>\<open>toFixed\<close> that throws, a property read of
  \<^verbatim>\<open>undefined\<close>) returns an option: \<open>None\<close> says that it threw, and the component as
  the exception left it is not described.
\<close>

record component =
  ctx :: WidgetContext
  nativeElement :: "element list option"
  svgParams :: "SvgInfo option"
  svg :: bool
  tooltip :: "ITooltipsterInstance option"
  overlayContainer :: "string option"
  shape :: jsval
  settings :: LevelCardWidgetSettings
  tankColor :: ColorProcessor
  valueColor :: ColorProcessor
  liquidColor :: ColorProcessor
  backgroundOverlayColor :: ColorProcessor
  tooltipLevelColor :: ColorProcessor
  tooltipDateFormat :: DateFormatProcessor
  volume :: "jsnum option"
  tooltipContent :: string
  widgetUnits :: jsval
  attributeRequests :: "(EntityId \<times> string list) list"
  resourceRequests :: "string list"
  clickBound :: bool

text \<open>\<^verbatim>\<open>$(this.elementRef.nativeElement).find(sel)\<close> followed by a call on the selection.\<close>

definition onElements :: "(element \<Rightarrow> bool) \<Rightarrow> (element \<Rightarrow> element) \<Rightarrow> component \<Rightarrow> component" where
  "onElements sel f c = c\<lparr>nativeElement := map_option (each sel f) (nativeElement c)\<rparr>"

text \<open>
  \<^verbatim>\<open>this.volume\<close> where a number is expected: a capacity that was never assigned is
  \<^verbatim>\<open>undefined\<close>, which arithmetic reads as NaN.
\<close>

definition volume_of :: "component \<Rightarrow> jsnum" where
  "volume_of c = (case volume c of None \<Rightarrow> NaN | Some v \<Rightarrow> v)"

section \<open>Resolving the shape and the secondary values\<close>

text \<open>
  \<^verbatim>\<open>
  private declareStyles(): void {
    this.tankColor = ColorProcessor.fromSettings(this.settings.tankColor);
    ... (valueColor, liquidColor, backgroundOverlayColor, tooltipLevelColor)
    this.tooltipDateFormat = DateFormatProcessor.fromSettings(this.ctx.$injector,
                                                              this.settings.tooltipDateFormat);
  }
  \<close>
\<close>

definition declareStyles :: "env \<Rightarrow> component \<Rightarrow> component" where
  "declareStyles env c =
     c\<lparr>tankColor := cp_fromSettings env (tankColor_cfg (settings c)),
       valueColor := cp_fromSettings env (valueColor_cfg (settings c)),
       liquidColor := cp_fromSettings env (liquidColor_cfg (settings c)),
       backgroundOverlayColor := cp_fromSettings env (backgroundOverlayColor_cfg (settings c)),
       tooltipLevelColor := cp_fromSettings env (tooltipLevelColor_cfg (settings c)),
       tooltipDateFormat := df_fromSettings env (tooltipDateFormat_cfg (settings c))\<rparr>"

text \<open>
  \<^verbatim>\<open>
  private getShape(entityId: EntityId): Observable<Shapes> {
    if (this.settings.tankSelectionType === LiquidWidgetDataSourceType.attribute
        && entityId.id !== NULL_UUID) {
      return this.ctx.attributeService.getEntityAttributes(entityId, null,
        [this.settings.shapeAttributeName]).pipe(
        map(attributes =>
          extractValue(attributes, this.settings.shapeAttributeName, this.settings.selectedShape)
        )
      );
    }
    return of(this.settings.selectedShape);
  }
  \<close>
  The functions that return an observable are given with their subscription: the result
  is what the observable emits, and the component with the request recorded.
\<close>

definition getShape :: "env \<Rightarrow> EntityId \<Rightarrow> component \<Rightarrow> jsval observable \<times> component" where
  "getShape env entityId c =
     (if tankSelectionType (settings c) = LiquidWidgetDataSourceType_attribute
         \<and> id' entityId \<noteq> NULL_UUID env
      then
        (map_observable
           (\<lambda>attrs. extractValue env attrs (shapeAttributeName (settings c))
                      (JString (selectedShape (settings c))))
           (getEntityAttributes env entityId [shapeAttributeName (settings c)]),
         c\<lparr>attributeRequests :=
              attributeRequests c @ [(entityId, [shapeAttributeName (settings c)])]\<rparr>)
      else (Emit (JString (selectedShape (settings c))), c))"

text \<open>
  \<^verbatim>\<open>
  private prepareAttributeNames(): string[] {
    const names = [];
    if (this.settings.volumeSource !== LiquidWidgetDataSourceType.static) {
      names.push(this.settings.volumeAttributeName);
    }
    if (this.settings.widgetUnitsSource !== LiquidWidgetDataSourceType.static) {
      names.push(this.settings.widgetUnitsAttributeName);
    }
    return names;
  }
  \<close>
\<close>

definition prepareAttributeNames :: "component \<Rightarrow> string list" where
  "prepareAttributeNames c =
     (let names = [];
          names = (if volumeSource (settings c) \<noteq> LiquidWidgetDataSourceType_static
                   then names @ [volumeAttributeName (settings c)] else names);
          names = (if widgetUnitsSource (settings c) \<noteq> LiquidWidgetDataSourceType_static
                   then names @ [widgetUnitsAttributeName (settings c)] else names)
      in names)"

text \<open>
  \<^verbatim>\<open>
  private getSecondaryResources(entityId: EntityId): Observable<{ volume: number; units: string }> {
    const attributeNames = this.prepareAttributeNames();
    if (!attributeNames.length || entityId.id === NULL_UUID) {
      return of({
        volume: this.settings.volumeConstant,
        units: this.settings.units
      });
    }
    return this.ctx.attributeService.getEntityAttributes(entityId, null, attributeNames).pipe(
      map(attributes => ({
        volume: extractValue(attributes, this.settings.volumeAttributeName, this.settings.volumeConstant),
        units: extractValue(attributes, this.settings.widgetUnitsAttributeName, this.settings.units)
      }))
    );
  }
  \<close>
  The emitted object is the pair (volume, units).
\<close>

definition getSecondaryResources ::
  "env \<Rightarrow> EntityId \<Rightarrow> component \<Rightarrow> (jsval \<times> jsval) observable \<times> component" where
  "getSecondaryResources env entityId c =
     (let attributeNames = prepareAttributeNames c in
      if length attributeNames = 0 \<or> id' entityId = NULL_UUID env
      then
        (Emit (JNumber (volumeConstant (settings c)), JString (units (settings c))), c)
      else
        (map_observable
           (\<lambda>attrs.
              (extractValue env attrs (volumeAttributeName (settings c))
                 (JNumber (volumeConstant (settings c))),
               extractValue env attrs (widgetUnitsAttributeName (settings c))
                 (JString (units (settings c)))))
           (getEntityAttributes env entityId attributeNames),
         c\<lparr>attributeRequests := attributeRequests c @ [(entityId, attributeNames)]\<rparr>))"

text \<open>
  \<^verbatim>\<open>
  private loadSVG(url: string): Observable<string> {
    const resourcesService = this.ctx.$injector.get(ResourcesService);
    return resourcesService.loadJsonResource(url);
  }
  \<close>
\<close>

definition loadSVG :: "env \<Rightarrow> string \<Rightarrow> component \<Rightarrow> jsval observable \<times> component" where
  "loadSVG env url c =
     (loadJsonResource env url, c\<lparr>resourceRequests := resourceRequests c @ [url]\<rparr>)"

text \<open>
  \<^verbatim>\<open>
  private getData(): Observable<{ svg: string; volume: number; units: string }> {
    const entityId: EntityId = {
      entityType: this.ctx.datasources[0].entityType,
      id: this.ctx.datasources[0].entityId
    };
    return this.getShape(entityId).pipe(
      switchMap(shape => {
        this.shape = shape;
        this.svgParams = svgMapping.get(shape);
        if (this.svgParams) {
          return this.loadSVG(this.svgParams.svg).pipe(
            switchMap( svg =>
              this.getSecondaryResources(entityId).pipe(
                map(({ volume, units }) =>
                  ({ svg, volume, units })
                )
              )
            )
          );
        }
        return of(null);
      })
    );
  }
  \<close>
  The outer \<open>option\<close> is the TypeError of \<^verbatim>\<open>this.ctx.datasources[0].entityType\<close> when
  there is no data source; the emitted value is \<open>None\<close> for \<^verbatim>\<open>null\<close> and the triple
  (svg, volume, units) otherwise.
\<close>

definition getData ::
  "env \<Rightarrow> component \<Rightarrow> ((jsval \<times> jsval \<times> jsval) option observable \<times> component) option" where
  "getData env c =
     (case datasources (ctx c) of
        [] \<Rightarrow> None
      | d # _ \<Rightarrow>
          (let entityId = \<lparr>entityType = ds_entityType d, id' = ds_entityId d\<rparr> in
           case getShape env entityId c of
             (Silent, c1) \<Rightarrow> Some (Silent, c1)
           | (Emit sh, c1) \<Rightarrow>
               (let c2 = c1\<lparr>shape := sh, svgParams := svgMapping env sh\<rparr> in
                case svgParams c2 of
                  Some params \<Rightarrow>
                    (case loadSVG env (svg_url params) c2 of
                       (Silent, c3) \<Rightarrow> Some (Silent, c3)
                     | (Emit markup, c3) \<Rightarrow>
                         (case getSecondaryResources env entityId c3 of
                            (Silent, c4) \<Rightarrow> Some (Silent, c4)
                          | (Emit (vol, un), c4) \<Rightarrow> Some (Emit (Some (markup, vol, un)), c4)))
                | None \<Rightarrow> Some (Emit None, c2))))"

section \<open>Unit conversion around the component\<close>

text \<open>
  \<^verbatim>\<open>
  private convertInputData(value: number): number {
    if (this.settings.datasourceUnits !== CapacityUnits.percent) {
      return (convertLiters(value, this.settings.datasourceUnits, ConversionType.to) /
        convertLiters(this.volume, this.settings.volumeUnits, ConversionType.to)) * 100;
    }
    return value;
  }
  \<close>
\<close>

definition convertInputData :: "env \<Rightarrow> component \<Rightarrow> jsnum \<Rightarrow> jsnum option" where
  "convertInputData env c v =
     (if datasourceUnits (settings c) \<noteq> CapacityUnits_percent env then
        do {
          reading \<leftarrow> convertLiters env v (JString (datasourceUnits (settings c))) ConversionType_to;
          capacity \<leftarrow> convertLiters env (volume_of c) (JString (volumeUnits (settings c)))
                        ConversionType_to;
          Some (js_mul (js_div reading capacity) (Num 100))
        }
      else Some v)"

text \<open>
  \<^verbatim>\<open>
  private convertOutputData(value: number): number {
    if (this.widgetUnits !== CapacityUnits.percent) {
      return convertLiters(this.volume * (value / 100), this.settings.volumeUnits, ConversionType.to);
    }
    return value;
  }
  \<close>
\<close>

definition convertOutputData :: "env \<Rightarrow> component \<Rightarrow> jsnum \<Rightarrow> jsnum option" where
  "convertOutputData env c v =
     (if widgetUnits c \<noteq> JString (CapacityUnits_percent env) then
        convertLiters env (js_mul (volume_of c) (js_div v (Num 100)))
          (JString (volumeUnits (settings c))) ConversionType_to
      else Some v)"

text \<open>
  \<^verbatim>\<open>
  private convertTooltipData(value: number): number {
    const percentage = this.convertInputData(value);
    if (this.settings.tooltipUnits !== CapacityUnits.percent) {
      const liters = this.convertOutputData(percentage);
      return convertLiters(liters, this.settings.tooltipUnits, ConversionType.from);
    } else {
      return percentage;
    }
  }
  \<close>
\<close>

definition convertTooltipData :: "env \<Rightarrow> component \<Rightarrow> jsnum \<Rightarrow> jsnum option" where
  "convertTooltipData env c v =
     do {
       percentage \<leftarrow> convertInputData env c v;
       if tooltipUnits (settings c) \<noteq> CapacityUnits_percent env then
         do {
           liters \<leftarrow> convertOutputData env c percentage;
           convertLiters env liters (JString (tooltipUnits (settings c))) ConversionType_from
         }
       else Some percentage
     }"

section \<open>Tooltip Content Generator\<close>

text \<open>
  \<^verbatim>\<open>
  private createTooltipContent(labelText: string, contentValue: string, textStyle: string): string {
    return `<div style="display: flex; justify-content: space-between; gap: 8px">
                <label style="color: rgba(0, 0, 0, 0.38); ...">
                    ${labelText}
                </label>
                <label style="${textStyle}">
                  ${contentValue}
                </label>
            </div>`;
  }
  \<close>
\<close>

definition createTooltipContent :: "string \<Rightarrow> string \<Rightarrow> string \<Rightarrow> string" where
  \<open>createTooltipContent labelText contentValue textStyle =
       ''<div style="display: flex; justify-content: space-between; gap: 8px">'' @ [CHR 0x0A] @
       ''                <label style="color: rgba(0, 0, 0, 0.38); font-size: 12px; font-weight: 400; white-space: nowrap;">'' @ [CHR 0x0A] @
       ''                    '' @ labelText @ [CHR 0x0A] @
       ''                </label>'' @ [CHR 0x0A] @
       ''                <label style="'' @ textStyle @ ''">'' @ [CHR 0x0A] @
       ''                  '' @ contentValue @ [CHR 0x0A] @
       ''                </label>'' @ [CHR 0x0A] @
       ''            </div>''\<close>

definition tooltipOpening :: string where
  \<open>tooltipOpening =
       ''<div style="display: flex; flex-direction: column;'' @ [CHR 0x0A] @
       ''                               gap: 8px; background-color: transparent">''\<close>

text \<open>
  \<^verbatim>\<open>
  private getTooltipContent(value?: [number, any]): string {
    const contentValue = value || [0, ''];
    let tooltipValue: string | number = 'N/A';
    if (isNumber(contentValue[1])) {
      tooltipValue = this.convertTooltipData(contentValue[1]);
    }
    this.tooltipLevelColor.update(tooltipValue);
    this.tooltipDateFormat.update(contentValue[0]);
    const levelTextStyle = cssTextFromInlineStyle({...inlineTextStyle(this.settings.tooltipLevelFont),
      color: this.tooltipLevelColor.color});
    const dateTextStyle = cssTextFromInlineStyle({...inlineTextStyle(this.settings.tooltipDateFont),
      color: this.settings.tooltipDateColor, overflow: 'hidden', 'text-overflow': 'ellipsis',
      'white-space': 'nowrap'});
    let content = `<div style="display: flex; flex-direction: column;
                               gap: 8px; background-color: transparent">`;
    if (this.settings.showTooltipLevel) {
      const levelValue = typeof tooltipValue == 'number'
          ? `${tooltipValue.toFixed(this.settings.tooltipLevelDecimals)}${this.settings.tooltipUnits}`
          : 'N/A';
      content += this.createTooltipContent(
        this.ctx.translate.instant('widgets.liquid-level-card.level'), levelValue, levelTextStyle);
    }
    if (this.settings.showTooltipDate) {
      content += this.createTooltipContent(
        this.ctx.translate.instant('widgets.liquid-level-card.last-update'),
        this.tooltipDateFormat.formatted, dateTextStyle);
    }
    content += '</div>';
    return content;
  }
  \<close>
  The absent argument is \<open>None\<close>. The function returns the content and the component,
  whose two tooltip processors it has updated; \<open>None\<close> when a conversion or \<^verbatim>\<open>toFixed\<close>
  throws.
\<close>

definition getTooltipContent ::
  "env \<Rightarrow> (jsnum \<times> jsval) option \<Rightarrow> component \<Rightarrow> (string \<times> component) option" where
  "getTooltipContent env val c =
     (let contentValue = (case val of Some m \<Rightarrow> m | None \<Rightarrow> (Num 0, JString '''')) in
      do {
        tooltipValue \<leftarrow>
          (if isNumber (snd contentValue)
           then map_option JNumber (convertTooltipData env c (asNumber (snd contentValue)))
           else Some (JString ''N/A''));
        let c1 = c\<lparr>tooltipLevelColor := cp_update env (tooltipLevelColor c) tooltipValue\<rparr>;
        let c2 = c1\<lparr>tooltipDateFormat := df_update env (tooltipDateFormat c1) (fst contentValue)\<rparr>;
        let levelTextStyle =
              cssTextFromInlineStyle env
                (spread_with (inlineTextStyle env (tooltipLevelFont (settings c2)))
                   ''color'' (color (tooltipLevelColor c2)));
        let dateTextStyle =
              cssTextFromInlineStyle env
                (spread_with (spread_with (spread_with (spread_with
                   (inlineTextStyle env (tooltipDateFont (settings c2)))
                   ''color'' (tooltipDateColor (settings c2)))
                   ''overflow'' ''hidden'')
                   ''text-overflow'' ''ellipsis'')
                   ''white-space'' ''nowrap'');
        let markup = tooltipOpening;
        markup \<leftarrow>
          (if showTooltipLevel (settings c2) then
             do {
               levelValue \<leftarrow>
                 (if isNumber tooltipValue
                  then map_option (\<lambda>digits. digits @ tooltipUnits (settings c2))
                         (toFixed env (asNumber tooltipValue) (tooltipLevelDecimals (settings c2)))
                  else Some ''N/A'');
               Some (markup @ createTooltipContent
                       (translate_instant env ''widgets.liquid-level-card.level'')
                       levelValue levelTextStyle)
             }
           else Some markup);
        let markup =
              (if showTooltipDate (settings c2)
               then markup @ createTooltipContent
                      (translate_instant env ''widgets.liquid-level-card.last-update'')
                      (formatted (tooltipDateFormat c2)) dateTextStyle
               else markup);
        Some (markup @ ''</div>'', c2)
      })"

text \<open>
  \<^verbatim>\<open>
  private updateTooltip(value: [number, any]): void {
    this.tooltipContent = this.getTooltipContent(value);
    if (this.tooltip) {
      this.tooltip.content(this.tooltipContent);
    }
  }
  \<close>
\<close>

definition updateTooltip :: "env \<Rightarrow> jsnum \<times> jsval \<Rightarrow> component \<Rightarrow> component option" where
  "updateTooltip env val c =
     do {
       (markup, c1) \<leftarrow> getTooltipContent env (Some val) c;
       let c2 = c1\<lparr>tooltipContent := markup\<rparr>;
       Some (case tooltip c2 of
               Some t \<Rightarrow> c2\<lparr>tooltip := Some (t\<lparr>tt_content := Some (tooltipContent c2)\<rparr>)\<rparr>
             | None \<Rightarrow> c2)
     }"

text \<open>
  \<^verbatim>\<open>
  private createTooltip(): void {
    this.tooltipContent = this.getTooltipContent();
    import('tooltipster').then(() => {
      if ($.tooltipster && this.tooltip) {
        this.tooltip.destroy();
        this.tooltip = null;
      }
      this.tooltip = this.svg.tooltipster({ ... }).tooltipster('instance');
    });
  }
  \<close>
  \<open>createTooltip\<close> is the synchronous part. The callback of the import runs in a later
  task, never before \<^verbatim>\<open>ngOnInit\<close> has returned; it is \<open>tooltipsterLoaded\<close>: a fresh
  instance, whose content is set when it opens (\<^verbatim>\<open>functionBefore\<close>) or by
  \<open>updateTooltip\<close>. The options of the popup (side, delay, distance, styles) are not
  modelled.
\<close>

definition createTooltip :: "env \<Rightarrow> component \<Rightarrow> component option" where
  "createTooltip env c =
     do {
       (markup, c1) \<leftarrow> getTooltipContent env None c;
       Some (c1\<lparr>tooltipContent := markup\<rparr>)
     }"

definition tooltipsterLoaded :: "component \<Rightarrow> component" where
  "tooltipsterLoaded c = c\<lparr>tooltip := Some \<lparr>tt_content = None\<rparr>\<rparr>"

section \<open>Visual Update Orchestrator\<close>

text \<open>
  \<^verbatim>\<open>
  private createSVG() {
    if (this.svg) {
      this.svg.css('display', 'block')
        .css('overflow', 'hidden')
        .css('width', '100%')
        .css('height', '100%');
    }
  }
  \<close>
\<close>

definition createSVG :: "component \<Rightarrow> component" where
  "createSVG c =
     (if svg c then
        onElements (hasTag ''svg'')
          (set_css ''height'' (JString ''100%'') \<circ> set_css ''width'' (JString ''100%'')
             \<circ> set_css ''overflow'' (JString ''hidden'') \<circ> set_css ''display'' (JString ''block''))
          c
      else c)"

text \<open>
  \<^verbatim>\<open>
  private createValueElement(): void {
    const jQueryContainerElement = $(this.elementRef.nativeElement);
    const containerOverlay = jQueryContainerElement.find('.container-overlay');
    const percentageOverlay = jQueryContainerElement.find('.percentage-overlay');
    const absoluteOverlay = jQueryContainerElement.find('.absolute-overlay');
    if (this.settings.layout === LevelCardLayout.absolute) {
      this.overlayContainer = absoluteOverlay;
      percentageOverlay.css('visibility', 'hidden');
      if (!this.settings.showBackgroundOverlay) {
        absoluteOverlay.css('visibility', 'hidden');
      }
    } else if (this.settings.layout === LevelCardLayout.percentage) {
      this.overlayContainer = percentageOverlay;
      absoluteOverlay.css('visibility', 'hidden');
      if (!this.settings.showBackgroundOverlay) {
        percentageOverlay.css('visibility', 'hidden');
      }
    } else {
      containerOverlay.css('visibility', 'hidden');
    }
    if (this.overlayContainer) {
      this.overlayContainer.attr('fill', this.backgroundOverlayColor.color);
      this.overlayContainer.removeAttr('fill-opacity');
    }
  }
  \<close>
\<close>

definition hide :: "string \<Rightarrow> component \<Rightarrow> component" where
  "hide cl c = onElements (hasClass cl) (set_css ''visibility'' (JString ''hidden'')) c"

definition createValueElement :: "component \<Rightarrow> component" where
  "createValueElement c =
     (let c1 =
        (if layout (settings c) = LevelCardLayout_absolute then
           (let c' = hide ''percentage-overlay'' (c\<lparr>overlayContainer := Some ''absolute-overlay''\<rparr>)
            in if \<not> showBackgroundOverlay (settings c') then hide ''absolute-overlay'' c' else c')
         else if layout (settings c) = LevelCardLayout_percentage then
           (let c' = hide ''absolute-overlay'' (c\<lparr>overlayContainer := Some ''percentage-overlay''\<rparr>)
            in if \<not> showBackgroundOverlay (settings c') then hide ''percentage-overlay'' c' else c')
         else hide ''container-overlay'' c)
      in case overlayContainer c1 of
           Some cl \<Rightarrow>
             onElements (hasClass cl)
               (removeAttr ''fill-opacity'' \<circ> set_attr ''fill'' (color (backgroundOverlayColor c1))) c1
         | None \<Rightarrow> c1)"

text \<open>
  \<^verbatim>\<open>
  private updateShapeColor(value: number): void {
    const jQueryContainerElement = $(this.elementRef.nativeElement);
    const shapeStrokes = jQueryContainerElement.find('.tb-shape-stroke');
    const shapeFill = jQueryContainerElement.find('.tb-shape-fill');
    this.tankColor.update(value);
    shapeStrokes.each((index, element) => {
      $(element).attr('stroke', this.tankColor.color);
    });
    shapeFill.each((index, element) => {
      $(element).attr('fill', this.tankColor.color);
    });
  }
  \<close>
\<close>

definition updateShapeColor :: "env \<Rightarrow> jsnum \<Rightarrow> component \<Rightarrow> component" where
  "updateShapeColor env v c =
     (let c1 = c\<lparr>tankColor := cp_update env (tankColor c) (JNumber v)\<rparr>;
          c2 = onElements (hasClass ''tb-shape-stroke'') (set_attr ''stroke'' (color (tankColor c1))) c1
      in onElements (hasClass ''tb-shape-fill'') (set_attr ''fill'' (color (tankColor c1))) c2)"

text \<open>
  \<^verbatim>\<open>
  private updateLevel(newY: number, percentage: number, ignoreAnimation = false): void {
    this.liquidColor.update(percentage);
    const jQueryContainerElement = $(this.elementRef.nativeElement);
    const fill = jQueryContainerElement.find('.tb-liquid-fill');
    const surfaces = jQueryContainerElement.find('.tb-liquid-surface');
    const surfacePositionAttr = this.shape !== Shapes.vCylinder ? 'y' : 'cy';
    const animationSpeed = 500;
    if (ignoreAnimation) {
      fill.css({y : newY});
    } else {
      fill.animate({y : newY}, animationSpeed);
    }
    fill.attr('fill', this.liquidColor.color);
    surfaces.each((index, element) => {
      const $element = $(element);
      if (ignoreAnimation) {
        $element.css({[surfacePositionAttr]: newY});
      } else {
        $element.animate({[surfacePositionAttr]: newY}, animationSpeed);
      }
      if ($element.hasClass('tb-liquid')) {
        $element.attr('fill', this.liquidColor.color);
      }
    });
  }
  \<close>
\<close>

definition moveTo :: "bool \<Rightarrow> string \<Rightarrow> jsnum \<Rightarrow> nat \<Rightarrow> element \<Rightarrow> element" where
  "moveTo ignoreAnimation prop newY animationSpeed e =
     (if ignoreAnimation then set_css prop (JNumber newY) e
      else animate prop newY animationSpeed e)"

definition updateLevel :: "env \<Rightarrow> jsnum \<Rightarrow> jsnum \<Rightarrow> bool \<Rightarrow> component \<Rightarrow> component" where
  "updateLevel env newY percentage ignoreAnimation c =
     (let c1 = c\<lparr>liquidColor := cp_update env (liquidColor c) (JNumber percentage)\<rparr>;
          surfacePositionAttr =
            (if shape c1 \<noteq> JString (Shapes_vCylinder env) then ''y'' else ''cy'');
          animationSpeed = 500;
          c2 = onElements (hasClass ''tb-liquid-fill'')
                 (moveTo ignoreAnimation ''y'' newY animationSpeed) c1;
          c3 = onElements (hasClass ''tb-liquid-fill'')
                 (set_attr ''fill'' (color (liquidColor c2))) c2
      in onElements (hasClass ''tb-liquid-surface'')
           (\<lambda>e. let e1 = moveTo ignoreAnimation surfacePositionAttr newY animationSpeed e
                in if hasClass ''tb-liquid'' e1 then set_attr ''fill'' (color (liquidColor c3)) e1
                   else e1)
           c3)"

text \<open>
  \<^verbatim>\<open>
  private updateSvg(percentage: number, ignoreAnimation?: boolean) {
    const yLimits: SvgLimits = {
      min: this.svgParams.limits.min,
      max: this.svgParams.limits.max
    };
    const newYPos = this.calculatePosition(percentage, yLimits);
    this.updateShapeColor(percentage);
    this.updateLevel(newYPos, percentage, ignoreAnimation);
  }
  \<close>
  \<open>None\<close> is the TypeError of reading \<^verbatim>\<open>limits\<close> of an unassigned \<^verbatim>\<open>svgParams\<close>.
\<close>

definition updateSvg :: "env \<Rightarrow> jsnum \<Rightarrow> bool \<Rightarrow> component \<Rightarrow> component option" where
  "updateSvg env percentage ignoreAnimation c =
     (case svgParams c of
        None \<Rightarrow> None
      | Some params \<Rightarrow>
          (let yLimits = \<lparr>min_l = min_l (limits params), max_l = max_l (limits params)\<rparr>;
               newYPos = calculatePosition percentage yLimits;
               c1 = updateShapeColor env percentage c
           in Some (updateLevel env newYPos percentage ignoreAnimation c1)))"

text \<open>
  \<^verbatim>\<open>
  private updateValueElement(data: any, percentage: number): void {
    let content: string;
    let container: JQuery<HTMLElement>;
    const jQueryContainerElement = $(this.elementRef.nativeElement);
    let value = 'N/A';
    if (isNumber(data)) {
      value = convertLiters(this.convertOutputData(percentage), this.widgetUnits as CapacityUnits,
                            ConversionType.from)
          .toFixed(this.settings.decimals || 0);
    }
    this.valueColor.update(value);
    const valueTextStyle = cssTextFromInlineStyle({...inlineTextStyle(this.settings.valueFont),
                                                          color: this.valueColor.color});
    this.backgroundOverlayColor.update(percentage);
    if (this.overlayContainer) {
      this.overlayContainer.attr('fill', this.backgroundOverlayColor.color);
    }
    if (this.settings.layout === LevelCardLayout.absolute) {
      const volumeInLiters: number = convertLiters(this.volume, this.settings.volumeUnits as CapacityUnits,
                                                   ConversionType.to);
      const volume = convertLiters(volumeInLiters, this.widgetUnits as CapacityUnits, ConversionType.from)
        .toFixed(this.settings.decimals || 0);
      const volumeTextStyle = cssTextFromInlineStyle({...inlineTextStyle(this.settings.volumeFont),
                                                             color: this.settings.volumeColor});
      container = jQueryContainerElement.find('.absolute-value-container');
      content = createAbsoluteLayout({inputValue: value, volume},
        {valueStyle: valueTextStyle, volumeStyle: volumeTextStyle}, this.widgetUnits);
    } else if (this.settings.layout === LevelCardLayout.percentage) {
      container = jQueryContainerElement.find('.percentage-value-container');
      content = createPercentLayout(value, valueTextStyle);
    }
    if (content && container) {
      container.html(content);
    }
  }
  \<close>
  \<open>setContent\<close> is the last conditional: an empty content is falsy, a jQuery selection
  is not.
\<close>

definition setContent :: "string \<Rightarrow> string \<Rightarrow> component \<Rightarrow> component" where
  "setContent cl markup c =
     (if markup \<noteq> [] then onElements (hasClass cl) (set_html markup) c else c)"

definition updateValueElement :: "env \<Rightarrow> jsval \<Rightarrow> jsnum \<Rightarrow> component \<Rightarrow> component option" where
  "updateValueElement env v percentage c =
     do {
       readout \<leftarrow>
         (if isNumber v then
            do {
              out \<leftarrow> convertOutputData env c percentage;
              shown \<leftarrow> convertLiters env out (widgetUnits c) ConversionType_from;
              toFixed env shown (or_zero (decimals (settings c)))
            }
          else Some ''N/A'');
       let c1 = c\<lparr>valueColor := cp_update env (valueColor c) (JString readout)\<rparr>;
       let valueTextStyle =
             cssTextFromInlineStyle env
               (spread_with (inlineTextStyle env (valueFont (settings c1)))
                  ''color'' (color (valueColor c1)));
       let c2 = c1\<lparr>backgroundOverlayColor :=
                      cp_update env (backgroundOverlayColor c1) (JNumber percentage)\<rparr>;
       let c3 = (case overlayContainer c2 of
                   Some cl \<Rightarrow>
                     onElements (hasClass cl)
                       (set_attr ''fill'' (color (backgroundOverlayColor c2))) c2
                 | None \<Rightarrow> c2);
       if layout (settings c3) = LevelCardLayout_absolute then
         do {
           volumeInLiters \<leftarrow>
             convertLiters env (volume_of c3) (JString (volumeUnits (settings c3))) ConversionType_to;
           capacity \<leftarrow> convertLiters env volumeInLiters (widgetUnits c3) ConversionType_from;
           capacityText \<leftarrow> toFixed env capacity (or_zero (decimals (settings c3)));
           let volumeTextStyle =
                 cssTextFromInlineStyle env
                   (spread_with (inlineTextStyle env (volumeFont (settings c3)))
                      ''color'' (volumeColor (settings c3)));
           Some (setContent ''absolute-value-container''
                   (createAbsoluteLayout env (readout, capacityText)
                      (valueTextStyle, volumeTextStyle) (widgetUnits c3))
                   c3)
         }
       else if layout (settings c3) = LevelCardLayout_percentage then
         Some (setContent ''percentage-value-container''
                 (createPercentLayout env readout valueTextStyle) c3)
       else Some c3
     }"

text \<open>
  \<^verbatim>\<open>
  private updateData(ignoreAnimation?: boolean) {
    const data = this.ctx.data[0]?.data[0];
    if (data && isDefinedAndNotNull(data[1])) {
      const percentage = isNumber(data[1]) ? this.convertInputData(data[1]) : 0;
      this.updateSvg(percentage, ignoreAnimation);
      this.updateValueElement(data[1], percentage);
      if (this.settings.showTooltip) {
        this.updateTooltip(data);
      }
    }
  }
  \<close>
  \<open>latestDatum\<close> is \<^verbatim>\<open>this.ctx.data[0]?.data[0]\<close>: \<open>None\<close> for \<^verbatim>\<open>undefined\<close>, when there is
  no series or the first series is empty.
\<close>

definition latestDatum :: "component \<Rightarrow> (jsnum \<times> jsval) option" where
  "latestDatum c =
     (case ctx_data (ctx c) of
        [] \<Rightarrow> None
      | series # _ \<Rightarrow> (case series of [] \<Rightarrow> None | m # _ \<Rightarrow> Some m))"

definition updateData :: "env \<Rightarrow> bool \<Rightarrow> component \<Rightarrow> component option" where
  "updateData env ignoreAnimation c =
     (case latestDatum c of
        None \<Rightarrow> Some c
      | Some m \<Rightarrow>
          if isDefinedAndNotNull (snd m) then
            do {
              percentage \<leftarrow>
                (if isNumber (snd m) then convertInputData env c (asNumber (snd m))
                 else Some (Num 0));
              c1 \<leftarrow> updateSvg env percentage ignoreAnimation c;
              c2 \<leftarrow> updateValueElement env (snd m) percentage c1;
              if showTooltip (settings c2) then updateTooltip env m c2 else Some c2
            }
          else Some c)"

text \<open>
  \<^verbatim>\<open>
  public update(ignoreAnimation?: boolean) {
    if (this.svg) {
      this.updateData(ignoreAnimation);
    }
  }
  \<close>
\<close>

definition update :: "env \<Rightarrow> bool \<Rightarrow> component \<Rightarrow> component option" where
  "update env ignoreAnimation c =
     (if svg c then updateData env ignoreAnimation c else Some c)"

text \<open>
  \<^verbatim>\<open>
  ngOnInit(): void {
    this.ctx.$scope.liquidLevelWidget = this;
    this.settings = {...levelCardDefaultSettings, ...this.ctx.settings};
    this.declareStyles();
    this.getData().subscribe(data => {
      if (data) {
        const { svg, volume, units } = data;
        if (svg && isString(svg) && this.elementRef.nativeElement) {
          const jQueryContainerElement = $(this.elementRef.nativeElement);
          jQueryContainerElement.html(svg);
          this.svg = jQueryContainerElement.find('svg');
          this.svg.on('click', this.cardClick.bind(this));
          this.createSVG();
          this.createValueElement();
          if (this.settings.showTooltip) {
            this.createTooltip();
          }
        }
        if (isDefined(volume) && !isNaN(Number(volume))) {
          this.volume = Number(volume);
        }
        if (units) {
          this.widgetUnits = units;
        }
        this.update(true);
      }
    });
  }
  \<close>
  The registration with the scope is not modelled. \<open>None\<close> is an exception, raised
  by \<open>getData\<close> or in the subscriber. \<open>render\<close> is the first conditional of the
  subscriber: the markup goes into the host element, \<^verbatim>\<open>this.svg\<close> is assigned and the
  click handler bound.
\<close>

definition render :: "env \<Rightarrow> jsval \<Rightarrow> component \<Rightarrow> component option" where
  "render env markup c =
     (if truthy markup \<and> isString markup \<and> nativeElement c \<noteq> None then
        (let c1 = c\<lparr>nativeElement := Some (parseHTML env (asString markup)),
                    svg := True, clickBound := True\<rparr>;
             c2 = createValueElement (createSVG c1)
         in if showTooltip (settings c2) then createTooltip env c2 else Some c2)
      else Some c)"

definition ngOnInit :: "env \<Rightarrow> component \<Rightarrow> component option" where
  "ngOnInit env c0 =
     (let c = declareStyles env (c0\<lparr>settings := ctx_settings (ctx c0)\<rparr>) in
      do {
        (emitted, c1) \<leftarrow> getData env c;
        case emitted of
          Silent \<Rightarrow> Some c1
        | Emit None \<Rightarrow> Some c1
        | Emit (Some (markup, vol, un)) \<Rightarrow>
            do {
              c2 \<leftarrow> render env markup c1;
              let c3 = (if isDefined vol \<and> \<not> isNaN (js_Number env vol)
                        then c2\<lparr>volume := Some (js_Number env vol)\<rparr> else c2);
              let c4 = (if truthy un then c3\<lparr>widgetUnits := un\<rparr> else c3);
              update env True c4
            }
      })"

section \<open>Observations and a concrete widget\<close>

text \<open>The elements under the host element (none when there is no host element).\<close>

definition dom :: "component \<Rightarrow> element list" where
  "dom c = (case nativeElement c of None \<Rightarrow> [] | Some els \<Rightarrow> els)"

text \<open>The elements after a call that may have thrown (none then).\<close>

definition rendered :: "component option \<Rightarrow> element list" where
  "rendered r = (case r of None \<Rightarrow> [] | Some c \<Rightarrow> dom c)"

text \<open>
  \<open>movedVia\<close>: the update wrote the coordinate \<open>y\<close> to the property \<open>prop\<close> of an
  element, at once (\<^verbatim>\<open>css\<close>) or as the target of an animation of 500 ms that it
  queued. \<open>leftAt\<close>: the update wrote nothing to the property.
\<close>

definition movedVia :: "bool \<Rightarrow> string \<Rightarrow> jsnum \<Rightarrow> element \<Rightarrow> element \<Rightarrow> bool" where
  "movedVia ignoreAnimation prop y e e' =
     (if ignoreAnimation then css e' prop = Some (JNumber y)
      else (prop, y, 500) \<in> set (drop (length (fx e)) (fx e')))"

definition leftAt :: "string \<Rightarrow> element \<Rightarrow> element \<Rightarrow> bool" where
  "leftAt prop e e' =
     (css e' prop = css e prop \<and> prop \<notin> fst ` set (drop (length (fx e)) (fx e')))"

text \<open>
  A run of the widget after initialisation: the framework stores a new context (new
  data) and calls \<^verbatim>\<open>update\<close>, any number of times.
\<close>

fun ticks :: "env \<Rightarrow> (WidgetContext \<times> bool) list \<Rightarrow> component \<Rightarrow> component option" where
  "ticks env [] c = Some c"
| "ticks env (step # rest) c =
     (case update env (snd step) (c\<lparr>ctx := fst step\<rparr>) of
        None \<Rightarrow> None
      | Some c' \<Rightarrow> ticks env rest c')"

text \<open>
  The read-out that \<open>updateValueElement\<close> writes for a value text \<open>readout\<close>: the text
  of the vessel capacity in the display unit (absolute layout only), the two text styles,
  the markup of the layout (empty when the layout shows no number, \<open>None\<close> when the
  capacity text cannot be computed) and the class of the element that receives it.
\<close>

definition capacityText :: "env \<Rightarrow> component \<Rightarrow> string option" where
  "capacityText env c =
     do {
       volumeInLiters \<leftarrow>
         convertLiters env (volume_of c) (JString (volumeUnits (settings c))) ConversionType_to;
       capacity \<leftarrow> convertLiters env volumeInLiters (widgetUnits c) ConversionType_from;
       toFixed env capacity (or_zero (decimals (settings c)))
     }"

definition valueTextStyle :: "env \<Rightarrow> component \<Rightarrow> string \<Rightarrow> string" where
  "valueTextStyle env c readout =
     cssTextFromInlineStyle env
       (spread_with (inlineTextStyle env (valueFont (settings c))) ''color''
          (color (cp_update env (valueColor c) (JString readout))))"

definition volumeTextStyle :: "env \<Rightarrow> component \<Rightarrow> string" where
  "volumeTextStyle env c =
     cssTextFromInlineStyle env
       (spread_with (inlineTextStyle env (volumeFont (settings c))) ''color''
          (volumeColor (settings c)))"

definition readoutMarkup :: "env \<Rightarrow> component \<Rightarrow> string \<Rightarrow> string option" where
  "readoutMarkup env c readout =
     (if layout (settings c) = LevelCardLayout_absolute then
        map_option
          (\<lambda>capacityText.
             createAbsoluteLayout env (readout, capacityText)
               (valueTextStyle env c readout, volumeTextStyle env c) (widgetUnits c))
          (capacityText env c)
      else if layout (settings c) = LevelCardLayout_percentage then
        Some (createPercentLayout env readout (valueTextStyle env c readout))
      else Some [])"

definition valueContainer :: "component \<Rightarrow> string" where
  "valueContainer c =
     (if layout (settings c) = LevelCardLayout_absolute then ''absolute-value-container''
      else ''percentage-value-container'')"

text \<open>
  What one tick does to a single element, stage by stage: the shell colour
  (\<open>updateShapeColor\<close>), the level (\<open>updateLevel\<close>), the overlay colour and the read-out
  (\<open>updateValueElement\<close>). The lemmas below show that the functions above act on the
  list of elements as these do on each element.
\<close>

definition shapeStep :: "env \<Rightarrow> jsnum \<Rightarrow> component \<Rightarrow> element \<Rightarrow> element" where
  "shapeStep env v c e =
     (let col = color (cp_update env (tankColor c) (JNumber v));
          e1 = (if hasClass ''tb-shape-stroke'' e then set_attr ''stroke'' col e else e)
      in if hasClass ''tb-shape-fill'' e1 then set_attr ''fill'' col e1 else e1)"

definition levelStep :: "env \<Rightarrow> jsnum \<Rightarrow> jsnum \<Rightarrow> bool \<Rightarrow> component \<Rightarrow> element \<Rightarrow> element" where
  "levelStep env newY p ign c e =
     (let sp = (if shape c \<noteq> JString (Shapes_vCylinder env) then ''y'' else ''cy'');
          col = color (cp_update env (liquidColor c) (JNumber p));
          e1 = (if hasClass ''tb-liquid-fill'' e
                then set_attr ''fill'' col (moveTo ign ''y'' newY 500 e) else e)
      in if hasClass ''tb-liquid-surface'' e1 then
           (let e2 = moveTo ign sp newY 500 e1
            in if hasClass ''tb-liquid'' e2 then set_attr ''fill'' col e2 else e2)
         else e1)"

definition overlayStep :: "component \<Rightarrow> element \<Rightarrow> element" where
  "overlayStep c e =
     (case overlayContainer c of
        Some cl \<Rightarrow> if hasClass cl e then set_attr ''fill'' (color (backgroundOverlayColor c)) e else e
      | None \<Rightarrow> e)"

definition overlayFill :: "component \<Rightarrow> component" where
  "overlayFill c =
     (case overlayContainer c of
        Some cl \<Rightarrow> onElements (hasClass cl) (set_attr ''fill'' (color (backgroundOverlayColor c))) c
      | None \<Rightarrow> c)"

definition tickStep ::
  "env \<Rightarrow> bool \<Rightarrow> component \<Rightarrow> jsnum \<Rightarrow> jsnum \<Rightarrow> string \<Rightarrow> element \<Rightarrow> element" where
  "tickStep env ign c p y markup e =
     (let e1 = levelStep env y p ign c (shapeStep env p c e);
          e2 = overlayStep
                 (c\<lparr>backgroundOverlayColor :=
                      cp_update env (backgroundOverlayColor c) (JNumber p)\<rparr>) e1
      in if markup \<noteq> [] \<and> hasClass (valueContainer c) e2 then set_html markup e2 else e2)"

text \<open>
  A concrete widget, on which the properties below are exercised: litres and percent
  are the only units its conversion knows, its Geometry Table has the vertical cylinder
  alone (empty at 180, full at 20), and its template has a fill body, a surface, a shell
  and the percentage read-out.
\<close>

definition demo_convertLiters :: "jsnum \<Rightarrow> jsval \<Rightarrow> ConversionType \<Rightarrow> jsnum option" where
  "demo_convertLiters v u t =
     (if u = JString ''L'' \<or> u = JString ''%'' then Some v else None)"

definition demo_toFixed :: "jsnum \<Rightarrow> jsnum \<Rightarrow> string option" where
  "demo_toFixed n digits =
     (if n = Num 25 then Some ''25'' else if n = Num 50 then Some ''50''
      else if n = Num 200 then Some ''200'' else Some ''#'')"

definition demo_element :: "string \<Rightarrow> string list \<Rightarrow> string \<Rightarrow> element" where
  "demo_element t cls markup =
     \<lparr>tag = t, classes = cls, attr = Map.empty, css = Map.empty, fx = [], html = markup\<rparr>"

definition demo_template :: "element list" where
  "demo_template =
     [demo_element ''svg'' [] [],
      (demo_element ''rect'' [''tb-liquid-fill'', ''tb-liquid''] [])
        \<lparr>css := [''y'' \<mapsto> JNumber (Num 140)]\<rparr>,
      (demo_element ''ellipse'' [''tb-liquid-surface'', ''tb-liquid''] [])
        \<lparr>css := [''cy'' \<mapsto> JNumber (Num 140)]\<rparr>,
      demo_element ''path'' [''tb-shape-stroke''] [],
      demo_element ''rect'' [''container-overlay'', ''percentage-overlay''] [],
      demo_element ''div'' [''percentage-value-container''] ''25'']"

definition demo_env :: env where
  "demo_env =
     \<lparr>convertLiters = demo_convertLiters,
      createAbsoluteLayout = (\<lambda>vals styles u. fst vals @ '' / '' @ snd vals),
      createPercentLayout = (\<lambda>v style. v),
      extractValue = (\<lambda>attrs name d. case map_of attrs name of None \<Rightarrow> d | Some v \<Rightarrow> v),
      svgMapping = [JString ''Vertical Cylinder'' \<mapsto>
                      \<lparr>svg_url = ''v-cylinder.svg'', limits = \<lparr>min_l = 180, max_l = 20\<rparr>\<rparr>],
      CapacityUnits_percent = ''%'',
      Shapes_vCylinder = ''Vertical Cylinder'',
      NULL_UUID = ''13814000-1dd2-11b2-8080-808080808080'',
      getEntityAttributes = (\<lambda>entityId names. Emit []),
      loadJsonResource = (\<lambda>url. Emit (JString ''<svg/>'')),
      parseHTML = (\<lambda>markup. demo_template),
      cp_fromSettings = (\<lambda>s. \<lparr>cp_settings = s, color = s\<rparr>),
      cp_update = (\<lambda>p v. p),
      df_fromSettings = (\<lambda>s. \<lparr>df_settings = s, formatted = []\<rparr>),
      df_update = (\<lambda>p t. p\<lparr>formatted := (if t = Num 0 then ''epoch'' else ''later'')\<rparr>),
      inlineTextStyle = (\<lambda>font. []),
      cssTextFromInlineStyle = (\<lambda>style. concat (map (\<lambda>kv. fst kv @ '':'' @ snd kv @ '';'') style)),
      translate_instant = (\<lambda>k. k),
      toFixed = demo_toFixed,
      coerceToNumber = (\<lambda>v. NaN)\<rparr>"

definition demo_settings :: LevelCardWidgetSettings where
  "demo_settings =
     \<lparr>tankSelectionType = LiquidWidgetDataSourceType_static,
      selectedShape = ''Vertical Cylinder'',
      shapeAttributeName = ''tankShape'',
      tankColor_cfg = ''grey'',
      datasourceUnits = ''L'',
      layout = LevelCardLayout_percentage,
      volumeSource = LiquidWidgetDataSourceType_static,
      volumeConstant = Num 200,
      volumeAttributeName = ''volume'',
      volumeUnits = ''L'',
      volumeFont = ''font'',
      volumeColor = ''black'',
      units = ''%'',
      widgetUnitsSource = LiquidWidgetDataSourceType_static,
      widgetUnitsAttributeName = ''units'',
      liquidColor_cfg = ''blue'',
      valueFont = ''font'',
      valueColor_cfg = ''black'',
      decimals = Num 0,
      showBackgroundOverlay = True,
      backgroundOverlayColor_cfg = ''white'',
      showTooltip = True,
      showTooltipLevel = True,
      tooltipUnits = ''%'',
      tooltipLevelDecimals = Num 0,
      tooltipLevelFont = ''font'',
      tooltipLevelColor_cfg = ''black'',
      showTooltipDate = True,
      tooltipDateFormat_cfg = ''yyyy-MM-dd'',
      tooltipDateFont = ''font'',
      tooltipDateColor = ''black''\<rparr>"

text \<open>The component as constructed, before \<^verbatim>\<open>ngOnInit\<close>, with one measurement waiting.\<close>

definition demo_component :: "jsval \<Rightarrow> component" where
  "demo_component v =
     \<lparr>ctx = \<lparr>ctx_settings = demo_settings,
              datasources = [\<lparr>ds_entityType = ''DEVICE'', ds_entityId = ''e1''\<rparr>],
              ctx_data = [[(Num 1000, v)]]\<rparr>,
      nativeElement = Some [],
      svgParams = None,
      svg = False,
      tooltip = None,
      overlayContainer = None,
      shape = JUndefined,
      settings = demo_settings,
      tankColor = \<lparr>cp_settings = [], color = []\<rparr>,
      valueColor = \<lparr>cp_settings = [], color = []\<rparr>,
      liquidColor = \<lparr>cp_settings = [], color = []\<rparr>,
      backgroundOverlayColor = \<lparr>cp_settings = [], color = []\<rparr>,
      tooltipLevelColor = \<lparr>cp_settings = [], color = []\<rparr>,
      tooltipDateFormat = \<lparr>df_settings = [], formatted = []\<rparr>,
      volume = None,
      tooltipContent = [],
      widgetUnits = JUndefined,
      attributeRequests = [],
      resourceRequests = [],
      clickBound = False\<rparr>"

text \<open>
  The same widget once rendered, showing 25 percent: the liquid at 140 and the read-out
  ''25''.
\<close>

definition demo_rendered :: "jsval \<Rightarrow> component" where
  "demo_rendered v =
     (demo_component v)
       \<lparr>nativeElement := Some demo_template,
        svgParams := Some \<lparr>svg_url = ''v-cylinder.svg'', limits = \<lparr>min_l = 180, max_l = 20\<rparr>\<rparr>,
        svg := True,
        overlayContainer := Some ''percentage-overlay'',
        shape := JString ''Vertical Cylinder'',
        volume := Some (Num 200),
        widgetUnits := JString ''%''\<rparr>"

text \<open>The widget as constructed, configured with a shape the Geometry Table does not have.\<close>

definition demo_unknown :: component where
  "demo_unknown =
     (demo_component (JNumber (Num 50)))
       \<lparr>ctx := (ctx (demo_component (JNumber (Num 50))))
                 \<lparr>ctx_settings := demo_settings\<lparr>selectedShape := ''Sphere''\<rparr>\<rparr>\<rparr>"

section \<open>Properties of the Level Position Calculator\<close>

lemma double_top: "(2::real) ^ 1023 + 2 ^ 1023 = 2 ^ 1024"
  by simp

lemma overflowAt_large: "2 ^ 1023 < overflowAt"
proof -
  have "(2::real) ^ 1024 = 2 ^ 1023 + 2 ^ 1023" by simp
  moreover have "(2::real) ^ 970 < 2 ^ 1023" by (rule power_strict_increasing) simp_all
  ultimately show ?thesis by (simp add: overflowAt_def)
qed

lemma overflowAt_million: "1000000 < overflowAt"
proof -
  have "(1000000::real) < 2 ^ 20" by simp
  also have "(2::real) ^ 20 \<le> 2 ^ 1023" by (rule power_increasing) simp_all
  finally show ?thesis using overflowAt_large by simp
qed

lemma js_round_in_range: "\<bar>r\<bar> < overflowAt \<Longrightarrow> js_round r = Num r"
  by (auto simp: js_round_def)

lemma js_round_small [simp]: "\<bar>r\<bar> \<le> 1000000 \<Longrightarrow> js_round r = Num r"
  using overflowAt_million by (intro js_round_in_range) simp

lemma js_le_Num_right: "js_le p (Num b) \<Longrightarrow> p = NegInf \<or> (\<exists>a. p = Num a \<and> a \<le> b)"
  by (cases p) simp_all

lemma js_le_Num_left: "js_le (Num a) p \<Longrightarrow> p = PosInf \<or> (\<exists>b. p = Num b \<and> a \<le> b)"
  by (cases p) simp_all

lemma js_lt_Num_right: "js_lt p (Num b) \<Longrightarrow> p = NegInf \<or> (\<exists>a. p = Num a \<and> a < b)"
  by (cases p) simp_all

lemma js_lt_Num_left: "js_lt (Num a) p \<Longrightarrow> p = PosInf \<or> (\<exists>b. p = Num b \<and> a < b)"
  by (cases p) simp_all

lemma calculatePosition_Num:
  assumes lo: "\<bar>min_l l\<bar> < overflowAt" and hi: "\<bar>max_l l\<bar> < overflowAt"
    and span: "\<bar>max_l l - min_l l\<bar> < overflowAt"
  shows "calculatePosition (Num p) l =
     (if 100 \<le> p then Num (max_l l) else if p \<le> 0 then Num (min_l l)
      else Num (min_l l + (p / 100) * (max_l l - min_l l)))"
proof (cases "0 < p \<and> p < 100")
  case False
  then show ?thesis by (auto simp: calculatePosition_def js_ge_def)
next
  case True
  define t where "t = p / 100"
  define d where "d = max_l l - min_l l"
  have t: "0 < t" "t < 1" using True by (simp_all add: t_def)
  have "\<bar>t\<bar> < overflowAt" using t overflowAt_million by simp
  then have quotient: "js_div (Num p) (Num 100) = Num t"
    by (simp add: t_def js_round_in_range del: js_round_small)
  have difference: "js_sub (Num (max_l l)) (Num (min_l l)) = Num d"
    using span by (simp add: js_sub_def d_def js_round_in_range del: js_round_small)
  have "\<bar>t * d\<bar> = t * \<bar>d\<bar>" using t by (simp add: abs_mult)
  also have "\<dots> \<le> 1 * \<bar>d\<bar>" using t by (intro mult_right_mono) simp_all
  finally have "\<bar>t * d\<bar> < overflowAt" using span by (simp add: d_def)
  then have product: "js_mul (Num t) (Num d) = Num (t * d)"
    by (simp add: js_round_in_range del: js_round_small)
  have between: "min_l l + t * d = (1 - t) * min_l l + t * max_l l"
    by (simp add: d_def algebra_simps)
  have "\<bar>(1 - t) * min_l l + t * max_l l\<bar> \<le> \<bar>(1 - t) * min_l l\<bar> + \<bar>t * max_l l\<bar>"
    by (rule abs_triangle_ineq)
  also have "\<dots> = (1 - t) * \<bar>min_l l\<bar> + t * \<bar>max_l l\<bar>"
    using t by (simp add: abs_mult)
  also have "\<dots> < (1 - t) * overflowAt + t * overflowAt"
    using t lo hi by (intro add_strict_mono mult_strict_left_mono) simp_all
  also have "\<dots> = overflowAt" by (simp add: algebra_simps)
  finally have "\<bar>min_l l + t * d\<bar> < overflowAt" by (simp add: between)
  then have total: "js_add (Num (min_l l)) (Num (t * d)) = Num (min_l l + t * d)"
    by (simp add: js_round_in_range del: js_round_small)
  have "calculatePosition (Num p) l = js_add (Num (min_l l)) (js_mul (js_div (Num p) (Num 100))
          (js_sub (Num (max_l l)) (Num (min_l l))))"
    using True by (simp add: calculatePosition_def js_ge_def del: js_add.simps js_mul.simps js_div.simps)
  also have "\<dots> = Num (min_l l + t * d)"
    unfolding quotient difference product total ..
  finally show ?thesis
    using True by (simp add: t_def d_def)
qed

text \<open>
  C1. For every pair of limits and every percentage \<open>p\<close>, \<open>calculatePosition\<close> returns
  \<open>limits.max\<close> itself when \<open>p \<ge> 100\<close>, \<open>limits.min\<close> itself when \<open>p \<le> 0\<close>, and
  \<open>limits.min + (p / 100) * (limits.max - limits.min)\<close> when \<open>0 < p < 100\<close>. Nothing is
  assumed about the order of \<open>min\<close> and \<open>max\<close>; \<open>p\<close> ranges over every number,
  the infinities and NaN included (NaN satisfies none of the three conditions).
\<close>

theorem calculatePosition_spec:
  "(js_ge p (Num 100) \<longrightarrow> calculatePosition p lims = Num (max_l lims)) \<and>
   (js_le p (Num 0) \<longrightarrow> calculatePosition p lims = Num (min_l lims)) \<and>
   (js_lt (Num 0) p \<and> js_lt p (Num 100) \<longrightarrow>
      calculatePosition p lims =
        js_add (Num (min_l lims))
          (js_mul (js_div p (Num 100)) (js_sub (Num (max_l lims)) (Num (min_l lims)))))"
proof (intro conjI impI)
  assume "js_ge p (Num 100)"
  then show "calculatePosition p lims = Num (max_l lims)"
    by (simp add: calculatePosition_def)
next
  assume low: "js_le p (Num 0)"
  then have "\<not> js_ge p (Num 100)"
    by (auto simp: js_ge_def dest!: js_le_Num_right)
  with low show "calculatePosition p lims = Num (min_l lims)"
    by (simp add: calculatePosition_def)
next
  assume mid: "js_lt (Num 0) p \<and> js_lt p (Num 100)"
  then obtain a where p: "p = Num a" and a: "0 < a" "a < 100"
    by (auto dest!: js_lt_Num_right js_lt_Num_left)
  then show "calculatePosition p lims =
        js_add (Num (min_l lims))
          (js_mul (js_div p (Num 100)) (js_sub (Num (max_l lims)) (Num (min_l lims))))"
    by (simp add: calculatePosition_def js_ge_def)
qed

theorem calculatePosition_spec_witness:
  "calculatePosition (Num 150) \<lparr>min_l = 180, max_l = 20\<rparr> = Num 20 \<and>
   calculatePosition (Num (- 3)) \<lparr>min_l = 180, max_l = 20\<rparr> = Num 180 \<and>
   calculatePosition (Num 50) \<lparr>min_l = 180, max_l = 20\<rparr> = Num 100"
  using calculatePosition_spec [of "Num 150" "\<lparr>min_l = 180, max_l = 20\<rparr>"]
    calculatePosition_spec [of "Num (- 3)" "\<lparr>min_l = 180, max_l = 20\<rparr>"]
    calculatePosition_spec [of "Num 50" "\<lparr>min_l = 180, max_l = 20\<rparr>"]
  by (simp add: js_ge_def js_sub_def)




section \<open>Properties of the unit conversion\<close>

text \<open>
  C2. For every numeric raw value \<open>v\<close>: when the data source's unit is the percent
  pseudo-unit, \<open>convertInputData\<close> returns \<open>v\<close>; otherwise it returns the to-normalized
  reading divided by the to-normalized vessel capacity, times 100. A conversion that
  throws makes \<open>convertInputData\<close> throw.
\<close>

theorem convertInputData_spec:
  "(datasourceUnits (settings c) = CapacityUnits_percent env \<longrightarrow>
      convertInputData env c v = Some v) \<and>
   (datasourceUnits (settings c) \<noteq> CapacityUnits_percent env \<longrightarrow>
      convertInputData env c v =
        (case convertLiters env v (JString (datasourceUnits (settings c))) ConversionType_to of
           None \<Rightarrow> None
         | Some reading \<Rightarrow>
             (case convertLiters env (volume_of c) (JString (volumeUnits (settings c)))
                     ConversionType_to of
                None \<Rightarrow> None
              | Some capacity \<Rightarrow> Some (js_mul (js_div reading capacity) (Num 100)))))"
  by (simp add: convertInputData_def split: option.splits)

text \<open>Scenario B of the spec: 50 L in a vessel of 200 L is 25 percent.\<close>

theorem convertInputData_spec_witness:
  "convertInputData demo_env (demo_rendered JNull) (Num 50) = Some (Num 25) \<and>
   convertInputData demo_env
     ((demo_rendered JNull)\<lparr>settings := demo_settings\<lparr>datasourceUnits := ''%''\<rparr>\<rparr>) (Num 50)
     = Some (Num 50)"
  using convertInputData_spec [of "demo_rendered JNull" demo_env "Num 50"]
    convertInputData_spec [of "(demo_rendered JNull)\<lparr>settings := demo_settings\<lparr>datasourceUnits := ''%''\<rparr>\<rparr>"
      demo_env "Num 50"]
  by (simp add: demo_rendered_def demo_component_def demo_settings_def demo_env_def
      demo_convertLiters_def volume_of_def)

section \<open>Properties of the Resolver\<close>

lemma getData_placeholder:
  assumes "datasources (ctx c) = d # rest" and "ds_entityId d = NULL_UUID env"
  shows "\<exists>r c'. getData env c = Some (r, c') \<and> attributeRequests c' = attributeRequests c"
proof -
  define entityId where "entityId = \<lparr>entityType = ds_entityType d, id' = ds_entityId d\<rparr>"
  have sh: "getShape env entityId c = (Emit (JString (selectedShape (settings c))), c)"
    using assms by (simp add: getShape_def entityId_def)
  have sec: "getSecondaryResources env entityId c3 =
        (Emit (JNumber (volumeConstant (settings c3)), JString (units (settings c3))), c3)" for c3
    using assms by (simp add: getSecondaryResources_def entityId_def Let_def)
  show ?thesis
    using assms(1)
    by (cases "loadJsonResource env (svg_url (the (svgMapping env (JString (selectedShape (settings c))))))")
       (auto simp: getData_def entityId_def [symmetric] sh sec loadSVG_def Let_def
          split: option.splits)
qed

text \<open>
  C6. When the bound entity's identity is \<^verbatim>\<open>NULL_UUID\<close>, the Resolver issues no attribute
  fetch: the shape is the configured shape and the secondary values are the constants
  \<^verbatim>\<open>settings.volumeConstant\<close> and \<^verbatim>\<open>settings.units\<close>, and the component, with its record
  of attribute requests, is as before. The same holds for the secondary values whenever
  neither the volume nor the units are attribute-driven. So the whole resolution of
  \<open>getData\<close>, for a widget whose first data source is the placeholder entity, returns
  with the record of attribute requests unchanged.
\<close>

theorem resolver_without_fetch:
  "(id' entityId = NULL_UUID env \<longrightarrow>
      getShape env entityId c = (Emit (JString (selectedShape (settings c))), c) \<and>
      getSecondaryResources env entityId c =
        (Emit (JNumber (volumeConstant (settings c)), JString (units (settings c))), c)) \<and>
   (volumeSource (settings c) \<noteq> LiquidWidgetDataSourceType_attribute \<and>
    widgetUnitsSource (settings c) \<noteq> LiquidWidgetDataSourceType_attribute \<longrightarrow>
      getSecondaryResources env entityId c =
        (Emit (JNumber (volumeConstant (settings c)), JString (units (settings c))), c)) \<and>
   (\<forall>d rest. datasources (ctx c) = d # rest \<and> ds_entityId d = NULL_UUID env \<longrightarrow>
      (\<exists>r c'. getData env c = Some (r, c') \<and> attributeRequests c' = attributeRequests c))"
proof -
  have names: "prepareAttributeNames c = []"
    if "volumeSource (settings c) \<noteq> LiquidWidgetDataSourceType_attribute"
      and "widgetUnitsSource (settings c) \<noteq> LiquidWidgetDataSourceType_attribute"
    using that
    by (cases "volumeSource (settings c)"; cases "widgetUnitsSource (settings c)")
       (simp_all add: prepareAttributeNames_def)
  have "getSecondaryResources env entityId c =
          (Emit (JNumber (volumeConstant (settings c)), JString (units (settings c))), c)"
    if "prepareAttributeNames c = [] \<or> id' entityId = NULL_UUID env"
    using that by (auto simp: getSecondaryResources_def Let_def)
  then show ?thesis
    using names getData_placeholder [of c _ _ env]
    by (auto simp: getShape_def)
qed

text \<open>
  A widget whose shape, volume and units are all attribute-driven, bound to the
  placeholder entity: no request, the configured values.
\<close>

theorem resolver_without_fetch_witness:
  "getShape demo_env \<lparr>entityType = ''DEVICE'', id' = ''13814000-1dd2-11b2-8080-808080808080''\<rparr>
     ((demo_component JNull)\<lparr>settings := demo_settings
        \<lparr>tankSelectionType := LiquidWidgetDataSourceType_attribute,
         volumeSource := LiquidWidgetDataSourceType_attribute,
         widgetUnitsSource := LiquidWidgetDataSourceType_attribute\<rparr>\<rparr>)
   = (Emit (JString ''Vertical Cylinder''),
      (demo_component JNull)\<lparr>settings := demo_settings
        \<lparr>tankSelectionType := LiquidWidgetDataSourceType_attribute,
         volumeSource := LiquidWidgetDataSourceType_attribute,
         widgetUnitsSource := LiquidWidgetDataSourceType_attribute\<rparr>\<rparr>) \<and>
   getSecondaryResources demo_env
     \<lparr>entityType = ''DEVICE'', id' = ''13814000-1dd2-11b2-8080-808080808080''\<rparr>
     ((demo_component JNull)\<lparr>settings := demo_settings
        \<lparr>tankSelectionType := LiquidWidgetDataSourceType_attribute,
         volumeSource := LiquidWidgetDataSourceType_attribute,
         widgetUnitsSource := LiquidWidgetDataSourceType_attribute\<rparr>\<rparr>)
   = (Emit (JNumber (Num 200), JString ''%''),
      (demo_component JNull)\<lparr>settings := demo_settings
        \<lparr>tankSelectionType := LiquidWidgetDataSourceType_attribute,
         volumeSource := LiquidWidgetDataSourceType_attribute,
         widgetUnitsSource := LiquidWidgetDataSourceType_attribute\<rparr>\<rparr>) \<and>
   getSecondaryResources demo_env \<lparr>entityType = ''DEVICE'', id' = ''e1''\<rparr> (demo_component JNull)
   = (Emit (JNumber (Num 200), JString ''%''), demo_component JNull)"
  using resolver_without_fetch
      [of "\<lparr>entityType = ''DEVICE'', id' = ''13814000-1dd2-11b2-8080-808080808080''\<rparr>" demo_env
        "(demo_component JNull)\<lparr>settings := demo_settings
          \<lparr>tankSelectionType := LiquidWidgetDataSourceType_attribute,
           volumeSource := LiquidWidgetDataSourceType_attribute,
           widgetUnitsSource := LiquidWidgetDataSourceType_attribute\<rparr>\<rparr>"]
    resolver_without_fetch [of "\<lparr>entityType = ''DEVICE'', id' = ''e1''\<rparr>" demo_env "demo_component JNull"]
  by (simp add: demo_component_def demo_settings_def demo_env_def)

section \<open>Elements and selections\<close>

lemmas element_ops = set_css_def animate_def set_attr_def removeAttr_def set_html_def moveTo_def

lemma hasClass_ops [simp]:
  "hasClass cl (set_attr n v e) = hasClass cl e"
  "hasClass cl (set_css p w e) = hasClass cl e"
  "hasClass cl (animate p y d e) = hasClass cl e"
  "hasClass cl (moveTo ign p y d e) = hasClass cl e"
  "hasClass cl (set_html m e) = hasClass cl e"
  "hasClass cl (removeAttr n e) = hasClass cl e"
  by (simp_all add: hasClass_def element_ops)

lemma onElements_fields [simp]:
  "ctx (onElements sel f c) = ctx c"
  "svgParams (onElements sel f c) = svgParams c"
  "svg (onElements sel f c) = svg c"
  "tooltip (onElements sel f c) = tooltip c"
  "overlayContainer (onElements sel f c) = overlayContainer c"
  "shape (onElements sel f c) = shape c"
  "settings (onElements sel f c) = settings c"
  "tankColor (onElements sel f c) = tankColor c"
  "valueColor (onElements sel f c) = valueColor c"
  "liquidColor (onElements sel f c) = liquidColor c"
  "backgroundOverlayColor (onElements sel f c) = backgroundOverlayColor c"
  "tooltipLevelColor (onElements sel f c) = tooltipLevelColor c"
  "tooltipDateFormat (onElements sel f c) = tooltipDateFormat c"
  "volume (onElements sel f c) = volume c"
  "tooltipContent (onElements sel f c) = tooltipContent c"
  "widgetUnits (onElements sel f c) = widgetUnits c"
  "attributeRequests (onElements sel f c) = attributeRequests c"
  "resourceRequests (onElements sel f c) = resourceRequests c"
  "clickBound (onElements sel f c) = clickBound c"
  by (simp_all add: onElements_def)

lemma dom_onElements [simp]:
  "dom (onElements sel f c) = map (\<lambda>e. if sel e then f e else e) (dom c)"
  by (simp add: dom_def onElements_def each_def split: option.splits)

lemma dom_field_updates [simp]:
  "dom (c\<lparr>tankColor := x1\<rparr>) = dom c"
  "dom (c\<lparr>valueColor := x2\<rparr>) = dom c"
  "dom (c\<lparr>liquidColor := x3\<rparr>) = dom c"
  "dom (c\<lparr>backgroundOverlayColor := x4\<rparr>) = dom c"
  "dom (c\<lparr>tooltipLevelColor := x5\<rparr>) = dom c"
  "dom (c\<lparr>tooltipDateFormat := x6\<rparr>) = dom c"
  "dom (c\<lparr>tooltipContent := x7\<rparr>) = dom c"
  "dom (c\<lparr>tooltip := x8\<rparr>) = dom c"
  "dom (c\<lparr>ctx := x9\<rparr>) = dom c"
  by (simp_all add: dom_def)

lemma volume_of_frame [simp]:
  "volume_of (onElements sel f c) = volume_of c"
  "volume_of (c\<lparr>tankColor := x1\<rparr>) = volume_of c"
  "volume_of (c\<lparr>valueColor := x2\<rparr>) = volume_of c"
  "volume_of (c\<lparr>liquidColor := x3\<rparr>) = volume_of c"
  "volume_of (c\<lparr>backgroundOverlayColor := x4\<rparr>) = volume_of c"
  by (simp_all add: volume_of_def)

lemma setContent_fields [simp]:
  "ctx (setContent cl m c) = ctx c"
  "svgParams (setContent cl m c) = svgParams c"
  "svg (setContent cl m c) = svg c"
  "tooltip (setContent cl m c) = tooltip c"
  "overlayContainer (setContent cl m c) = overlayContainer c"
  "shape (setContent cl m c) = shape c"
  "settings (setContent cl m c) = settings c"
  "tankColor (setContent cl m c) = tankColor c"
  "valueColor (setContent cl m c) = valueColor c"
  "liquidColor (setContent cl m c) = liquidColor c"
  "backgroundOverlayColor (setContent cl m c) = backgroundOverlayColor c"
  "tooltipLevelColor (setContent cl m c) = tooltipLevelColor c"
  "tooltipDateFormat (setContent cl m c) = tooltipDateFormat c"
  "volume (setContent cl m c) = volume c"
  "tooltipContent (setContent cl m c) = tooltipContent c"
  "widgetUnits (setContent cl m c) = widgetUnits c"
  by (simp_all add: setContent_def)

lemma dom_setContent [simp]:
  "dom (setContent cl m c) = map (\<lambda>e. if m \<noteq> [] \<and> hasClass cl e then set_html m e else e) (dom c)"
  by (simp add: setContent_def)

section \<open>Facts about the concrete widget\<close>

lemma demo_datum: "latestDatum (demo_rendered v) = Some (Num 1000, v)"
  by (simp add: latestDatum_def demo_rendered_def demo_component_def)

lemma demo_params:
  "svgParams (demo_rendered v) =
     Some \<lparr>svg_url = ''v-cylinder.svg'', limits = \<lparr>min_l = 180, max_l = 20\<rparr>\<rparr>"
  by (simp add: demo_rendered_def)

lemma demo_readout: "readoutMarkup demo_env (demo_rendered v) ''N/A'' = Some ''N/A''"
  by (simp add: readoutMarkup_def demo_rendered_def demo_component_def demo_settings_def demo_env_def)

lemma demo_dom: "dom (demo_rendered v) = demo_template"
  by (simp add: dom_def demo_rendered_def)

lemma demo_shape:
  "shape (demo_rendered v) = JString (Shapes_vCylinder demo_env)"
  "valueContainer (demo_rendered v) = ''percentage-value-container''"
  by (simp_all add: demo_rendered_def demo_env_def valueContainer_def demo_component_def demo_settings_def)

lemma demo_svg: "svg (demo_rendered v)"
  by (simp add: demo_rendered_def)

section \<open>Ticks without a value\<close>

text \<open>
  C5. For every tick whose measurement value is undefined or null (and also when no
  measurement has arrived), the update sequence is aborted before its first step: the
  component after the tick is the component before it, so no colour, position, read-out,
  overlay or tooltip has changed and what was displayed stays displayed.
\<close>

theorem update_aborts_without_value:
  assumes "latestDatum c = None \<or> (\<exists>ts. latestDatum c = Some (ts, JUndefined))
             \<or> (\<exists>ts. latestDatum c = Some (ts, JNull))"
  shows "updateData env ignoreAnimation c = Some c \<and> update env ignoreAnimation c = Some c"
  using assms by (auto simp: update_def updateData_def isDefinedAndNotNull_def)

text \<open>
  The rendered widget showing ''25'': a null and an undefined value leave it as it is.
\<close>

theorem update_aborts_without_value_witness:
  "update demo_env False (demo_rendered JNull) = Some (demo_rendered JNull) \<and>
   update demo_env False (demo_rendered JUndefined) = Some (demo_rendered JUndefined) \<and>
   map html (dom (demo_rendered JNull)) = [[], [], [], [], [], ''25'']"
proof -
  have "latestDatum (demo_rendered JNull) = Some (Num 1000, JNull)"
    and "latestDatum (demo_rendered JUndefined) = Some (Num 1000, JUndefined)"
    by (simp_all add: latestDatum_def demo_rendered_def demo_component_def)
  then show ?thesis
    using update_aborts_without_value [of "demo_rendered JNull" demo_env False]
      update_aborts_without_value [of "demo_rendered JUndefined" demo_env False]
    by (simp add: dom_def demo_rendered_def demo_template_def demo_element_def)
qed

section \<open>The property that carries the level\<close>

lemma dom_updateLevel:
  "dom (updateLevel env newY p ign c) = map (levelStep env newY p ign c) (dom c)"
  by (auto simp add: updateLevel_def Let_def levelStep_def)

lemma levelStep_fill:
  "hasClass ''tb-liquid-fill'' e \<Longrightarrow> movedVia ign ''y'' newY e (levelStep env newY p ign c e)"
  by (auto simp: levelStep_def Let_def movedVia_def element_ops hasClass_def)

lemma levelStep_surface:
  "hasClass ''tb-liquid-surface'' e \<Longrightarrow>
     movedVia ign (if shape c = JString (Shapes_vCylinder env) then ''cy'' else ''y'') newY e
       (levelStep env newY p ign c e)"
  by (auto simp: levelStep_def Let_def movedVia_def element_ops hasClass_def)

lemma levelStep_leftAt_y:
  "\<not> hasClass ''tb-liquid-fill'' e \<Longrightarrow> shape c = JString (Shapes_vCylinder env) \<Longrightarrow>
     leftAt ''y'' e (levelStep env newY p ign c e)"
  by (auto simp: levelStep_def Let_def leftAt_def element_ops hasClass_def)

lemma levelStep_leftAt_cy:
  "shape c \<noteq> JString (Shapes_vCylinder env) \<or> \<not> hasClass ''tb-liquid-surface'' e \<Longrightarrow>
     leftAt ''cy'' e (levelStep env newY p ign c e)"
  by (auto simp: levelStep_def Let_def leftAt_def element_ops hasClass_def)

lemma levelStep_other:
  "\<not> hasClass ''tb-liquid-fill'' e \<Longrightarrow> \<not> hasClass ''tb-liquid-surface'' e \<Longrightarrow>
     levelStep env newY p ign c e = e"
  by (auto simp: levelStep_def Let_def)

text \<open>
  C10. For every level update and every element of the template: a liquid-surface
  element is moved to the target coordinate through the property \<open>cy\<close> when the shape is
  the vertical cylinder and through \<open>y\<close> for every other shape; a liquid-fill element
  is moved through \<open>y\<close> whatever the shape; the coordinate is the same \<open>newY\<close> in
  all cases. The other property is left alone (\<open>y\<close> of a vertical cylinder's surface
  that is not also a fill body, \<open>cy\<close> in every other case), and an element that is
  neither is not touched.
\<close>

theorem updateLevel_position_attribute:
  assumes "i < length (dom c)"
  shows "length (dom (updateLevel env newY p ign c)) = length (dom c) \<and>
    (hasClass ''tb-liquid-surface'' (dom c ! i) \<and> shape c = JString (Shapes_vCylinder env) \<longrightarrow>
       movedVia ign ''cy'' newY (dom c ! i) (dom (updateLevel env newY p ign c) ! i)) \<and>
    (hasClass ''tb-liquid-surface'' (dom c ! i) \<and> shape c \<noteq> JString (Shapes_vCylinder env) \<longrightarrow>
       movedVia ign ''y'' newY (dom c ! i) (dom (updateLevel env newY p ign c) ! i)) \<and>
    (hasClass ''tb-liquid-fill'' (dom c ! i) \<longrightarrow>
       movedVia ign ''y'' newY (dom c ! i) (dom (updateLevel env newY p ign c) ! i)) \<and>
    (\<not> hasClass ''tb-liquid-fill'' (dom c ! i) \<and> shape c = JString (Shapes_vCylinder env) \<longrightarrow>
       leftAt ''y'' (dom c ! i) (dom (updateLevel env newY p ign c) ! i)) \<and>
    (shape c \<noteq> JString (Shapes_vCylinder env) \<or> \<not> hasClass ''tb-liquid-surface'' (dom c ! i) \<longrightarrow>
       leftAt ''cy'' (dom c ! i) (dom (updateLevel env newY p ign c) ! i)) \<and>
    (\<not> hasClass ''tb-liquid-fill'' (dom c ! i) \<and> \<not> hasClass ''tb-liquid-surface'' (dom c ! i) \<longrightarrow>
       dom (updateLevel env newY p ign c) ! i = dom c ! i)"
proof -
  have nth: "dom (updateLevel env newY p ign c) ! i = levelStep env newY p ign c (dom c ! i)"
    using assms by (simp add: dom_updateLevel)
  show ?thesis
    unfolding nth
    using levelStep_fill [of "dom c ! i" ign newY env p c]
      levelStep_surface [of "dom c ! i" ign c env newY p]
      levelStep_leftAt_y [of "dom c ! i" c env newY p ign]
      levelStep_leftAt_cy [of c env "dom c ! i" newY p ign]
      levelStep_other [of "dom c ! i" env newY p ign c]
    by (auto simp: dom_updateLevel)
qed

text \<open>
  On the concrete widget (a vertical cylinder): the surface through \<open>cy\<close>, the fill
  body through \<open>y\<close>; as a rectangle, the surface through \<open>y\<close>.
\<close>

theorem updateLevel_position_attribute_witness:
  "movedVia True ''cy'' (Num 140) (dom (demo_rendered JNull) ! 2)
     (dom (updateLevel demo_env (Num 140) (Num 25) True (demo_rendered JNull)) ! 2) \<and>
   movedVia True ''y'' (Num 140) (dom (demo_rendered JNull) ! 1)
     (dom (updateLevel demo_env (Num 140) (Num 25) True (demo_rendered JNull)) ! 1) \<and>
   movedVia False ''y'' (Num 140) (dom ((demo_rendered JNull)\<lparr>shape := JString ''Rectangle''\<rparr>) ! 2)
     (dom (updateLevel demo_env (Num 140) (Num 25) False
             ((demo_rendered JNull)\<lparr>shape := JString ''Rectangle''\<rparr>)) ! 2)"
  using updateLevel_position_attribute [of 2 "demo_rendered JNull" demo_env "Num 140" "Num 25" True]
    updateLevel_position_attribute [of 1 "demo_rendered JNull" demo_env "Num 140" "Num 25" True]
    updateLevel_position_attribute [of 2 "(demo_rendered JNull)\<lparr>shape := JString ''Rectangle''\<rparr>"
      demo_env "Num 140" "Num 25" False]
  by (simp add: dom_def demo_rendered_def demo_component_def demo_template_def demo_element_def
      demo_env_def hasClass_def)

section \<open>The tooltip without a measurement\<close>

text \<open>
  C9. Called without a measurement, the tooltip content builder returns the content it
  builds for a value that is not available and the timestamp 0: the level row, when
  shown, reads ''N/A''; the level colour processor is updated with ''N/A'' and the
  date-format processor with 0. No unit conversion is attempted: the result is the same
  whatever \<^verbatim>\<open>convertLiters\<close> and \<^verbatim>\<open>toFixed\<close> are, also when they always throw. And the
  call is the same as a call with the timestamp 0 and any value that is not a number.
\<close>

theorem getTooltipContent_without_measurement:
  "getTooltipContent env None c =
     Some (tooltipOpening
           @ (if showTooltipLevel (settings c)
              then createTooltipContent (translate_instant env ''widgets.liquid-level-card.level'')
                     ''N/A''
                     (cssTextFromInlineStyle env
                        (spread_with (inlineTextStyle env (tooltipLevelFont (settings c))) ''color''
                           (color (cp_update env (tooltipLevelColor c) (JString ''N/A'')))))
              else [])
           @ (if showTooltipDate (settings c)
              then createTooltipContent
                     (translate_instant env ''widgets.liquid-level-card.last-update'')
                     (formatted (df_update env (tooltipDateFormat c) (Num 0)))
                     (cssTextFromInlineStyle env
                        (spread_with (spread_with (spread_with (spread_with
                           (inlineTextStyle env (tooltipDateFont (settings c)))
                           ''color'' (tooltipDateColor (settings c)))
                           ''overflow'' ''hidden'')
                           ''text-overflow'' ''ellipsis'')
                           ''white-space'' ''nowrap''))
              else [])
           @ ''</div>'',
           c\<lparr>tooltipLevelColor := cp_update env (tooltipLevelColor c) (JString ''N/A''),
             tooltipDateFormat := df_update env (tooltipDateFormat c) (Num 0)\<rparr>)
   \<and> getTooltipContent (env\<lparr>convertLiters := conv, toFixed := fixed\<rparr>) None c
       = getTooltipContent env None c
   \<and> (\<forall>v. \<not> isNumber v \<longrightarrow>
          getTooltipContent env (Some (Num 0, v)) c = getTooltipContent env None c)"
  by (simp add: getTooltipContent_def Let_def)

text \<open>
  With conversions that always throw, the builder still returns, and the date shown is
  the one of timestamp 0.
\<close>

theorem getTooltipContent_without_measurement_witness:
  "map_option (formatted \<circ> tooltipDateFormat \<circ> snd)
     (getTooltipContent (demo_env\<lparr>convertLiters := (\<lambda>v u t. None), toFixed := (\<lambda>n d. None)\<rparr>) None
        (demo_rendered JNull))
   = Some ''epoch''"
  using getTooltipContent_without_measurement
      [of "(demo_env\<lparr>convertLiters := (\<lambda>v u t. None), toFixed := (\<lambda>n d. None)\<rparr>)" "demo_rendered JNull"]
  by (simp add: demo_env_def)

section \<open>A shape without a template\<close>

lemma getShape_frame:
  assumes "getShape env entityId c = (r, c1)"
  shows "c1\<lparr>attributeRequests := attributeRequests c\<rparr> = c"
  using assms by (auto simp: getShape_def split: if_splits)

lemma ticks_unrendered:
  "\<not> svg c \<Longrightarrow> \<exists>c'. ticks env steps c = Some c' \<and> c'\<lparr>ctx := ctx c\<rparr> = c"
proof (induction steps arbitrary: c)
  case Nil
  then show ?case by simp
next
  case (Cons step rest)
  have idle: "update env (snd step) (c\<lparr>ctx := fst step\<rparr>) = Some (c\<lparr>ctx := fst step\<rparr>)"
    using Cons.prems by (simp add: update_def)
  have "\<not> svg (c\<lparr>ctx := fst step\<rparr>)"
    using Cons.prems by simp
  from Cons.IH [OF this] obtain c' where
    run: "ticks env rest (c\<lparr>ctx := fst step\<rparr>) = Some c'"
    and same: "c'\<lparr>ctx := ctx (c\<lparr>ctx := fst step\<rparr>)\<rparr> = c\<lparr>ctx := fst step\<rparr>"
    by blast
  from same have "(c'\<lparr>ctx := fst step\<rparr>)\<lparr>ctx := ctx c\<rparr> = (c\<lparr>ctx := fst step\<rparr>)\<lparr>ctx := ctx c\<rparr>"
    by simp
  then have "c'\<lparr>ctx := ctx c\<rparr> = c" by simp
  with run idle show ?case by simp
qed

text \<open>
  C7. If the resolved shape has no entry in the Geometry Table, \<open>getData\<close> emits
  \<^verbatim>\<open>null\<close> and \<^verbatim>\<open>ngOnInit\<close> leaves the widget unrendered: \<^verbatim>\<open>this.svg\<close> stays
  unassigned, the host element keeps its content, no template is requested. From then
  on every \<^verbatim>\<open>update\<close> is a no-op, whatever data arrive and however often it is
  called: after any run of ticks the component differs from the one \<^verbatim>\<open>ngOnInit\<close> left
  in nothing but the context the framework stored, so the lookup is never made again.
  The hypotheses: the widget has a data source, the shape observable emits \<open>sh\<close>
  (for the component as \<^verbatim>\<open>ngOnInit\<close> has prepared it), \<open>sh\<close> has no entry, and the
  widget was not rendered before.
\<close>

theorem unknown_shape_terminal:
  assumes ds: "datasources (ctx c) = d # rest"
    and resolved: "getShape env \<lparr>entityType = ds_entityType d, id' = ds_entityId d\<rparr>
                     (declareStyles env (c\<lparr>settings := ctx_settings (ctx c)\<rparr>)) = (Emit sh, c1)"
    and unknown: "svgMapping env sh = None"
    and unrendered: "\<not> svg c"
  shows "\<exists>c'. getData env (declareStyles env (c\<lparr>settings := ctx_settings (ctx c)\<rparr>)) = Some (Emit None, c')
           \<and> ngOnInit env c = Some c'
           \<and> \<not> svg c' \<and> svgParams c' = None
           \<and> nativeElement c' = nativeElement c
           \<and> resourceRequests c' = resourceRequests c
           \<and> (\<forall>ignoreAnimation. update env ignoreAnimation c' = Some c')
           \<and> (\<forall>steps. \<exists>c''. ticks env steps c' = Some c'' \<and> c''\<lparr>ctx := ctx c'\<rparr> = c')"
proof -
  define c0 where "c0 = declareStyles env (c\<lparr>settings := ctx_settings (ctx c)\<rparr>)"
  define c' where "c' = c1\<lparr>shape := sh, svgParams := svgMapping env sh\<rparr>"
  have c1: "c1\<lparr>attributeRequests := attributeRequests c0\<rparr> = c0"
    using resolved getShape_frame unfolding c0_def by blast
  have "svg c1 = svg (c1\<lparr>attributeRequests := attributeRequests c0\<rparr>)"
    and "nativeElement c1 = nativeElement (c1\<lparr>attributeRequests := attributeRequests c0\<rparr>)"
    and "resourceRequests c1 = resourceRequests (c1\<lparr>attributeRequests := attributeRequests c0\<rparr>)"
    by simp_all
  then have frame: "svg c1 = svg c" "nativeElement c1 = nativeElement c"
    "resourceRequests c1 = resourceRequests c"
    unfolding c1 by (simp_all add: c0_def declareStyles_def)
  have ds0: "datasources (ctx c0) = d # rest"
    using ds by (simp add: c0_def declareStyles_def)
  have resolved0: "getShape env \<lparr>entityType = ds_entityType d, id' = ds_entityId d\<rparr> c0 = (Emit sh, c1)"
    using resolved by (simp add: c0_def)
  have data: "getData env c0 = Some (Emit None, c')"
    using unknown by (simp add: getData_def ds0 resolved0 c'_def Let_def)
  then have init: "ngOnInit env c = Some c'"
    by (simp add: ngOnInit_def c0_def [symmetric] Let_def)
  have idle: "\<not> svg c'" using frame unrendered by (simp add: c'_def)
  show ?thesis
    using data init idle frame unknown ticks_unrendered [OF idle, of env]
    by (auto simp: c0_def [symmetric] c'_def update_def)
qed

text \<open>
  The concrete widget configured with the shape ''Sphere'': nothing rendered, no template
  requested, and an update changes nothing.
\<close>

theorem unknown_shape_terminal_witness:
  "rendered (ngOnInit demo_env demo_unknown) = [] \<and>
   map_option svg (ngOnInit demo_env demo_unknown) = Some False \<and>
   map_option svgParams (ngOnInit demo_env demo_unknown) = Some None \<and>
   map_option resourceRequests (ngOnInit demo_env demo_unknown) = Some [] \<and>
   Option.bind (ngOnInit demo_env demo_unknown) (update demo_env False)
     = ngOnInit demo_env demo_unknown"
proof -
  define c0 where "c0 = declareStyles demo_env (demo_unknown\<lparr>settings := ctx_settings (ctx demo_unknown)\<rparr>)"
  have ds: "datasources (ctx demo_unknown) = \<lparr>ds_entityType = ''DEVICE'', ds_entityId = ''e1''\<rparr> # []"
    by (simp add: demo_unknown_def demo_component_def)
  have resolved: "getShape demo_env \<lparr>entityType = ds_entityType \<lparr>ds_entityType = ''DEVICE'', ds_entityId = ''e1''\<rparr>,
                                      id' = ds_entityId \<lparr>ds_entityType = ''DEVICE'', ds_entityId = ''e1''\<rparr>\<rparr>
                    (declareStyles demo_env (demo_unknown\<lparr>settings := ctx_settings (ctx demo_unknown)\<rparr>))
                  = (Emit (JString ''Sphere''), c0)"
    by (simp add: getShape_def c0_def declareStyles_def demo_unknown_def demo_component_def
        demo_settings_def)
  have unknown: "svgMapping demo_env (JString ''Sphere'') = None"
    by (simp add: demo_env_def)
  have unrendered: "\<not> svg demo_unknown"
    by (simp add: demo_unknown_def demo_component_def)
  from unknown_shape_terminal [OF ds resolved unknown unrendered]
  obtain c' where init: "ngOnInit demo_env demo_unknown = Some c'"
    and facts: "\<not> svg c'" "svgParams c' = None" "nativeElement c' = nativeElement demo_unknown"
      "resourceRequests c' = resourceRequests demo_unknown"
      "\<forall>ignoreAnimation. update demo_env ignoreAnimation c' = Some c'"
    by blast
  have empty: "nativeElement c' = Some []" "resourceRequests c' = []"
    using facts by (simp_all add: demo_unknown_def demo_component_def)
  show ?thesis
    using facts(1,2,5) empty by (simp add: init rendered_def dom_def)
qed

section \<open>Ticks with a value that is not a number\<close>

lemma overlayFill_fields [simp]:
  "settings (overlayFill c) = settings c"
  "widgetUnits (overlayFill c) = widgetUnits c"
  "volume_of (overlayFill c) = volume_of c"
  "valueColor (overlayFill c) = valueColor c"
  "tankColor (overlayFill c) = tankColor c"
  "liquidColor (overlayFill c) = liquidColor c"
  "backgroundOverlayColor (overlayFill c) = backgroundOverlayColor c"
  "svgParams (overlayFill c) = svgParams c"
  "shape (overlayFill c) = shape c"
  by (simp_all add: overlayFill_def split: option.splits)

lemma updateValueElement_nonnumeric:
  assumes "\<not> isNumber v"
  shows "updateValueElement env v p c =
     (let c3 = overlayFill (c\<lparr>valueColor := cp_update env (valueColor c) (JString ''N/A''),
                              backgroundOverlayColor :=
                                cp_update env (backgroundOverlayColor c) (JNumber p)\<rparr>)
      in if layout (settings c) = LevelCardLayout_absolute then
           map_option
             (\<lambda>capacityText.
                setContent ''absolute-value-container''
                  (createAbsoluteLayout env (''N/A'', capacityText)
                     (valueTextStyle env c ''N/A'', volumeTextStyle env c) (widgetUnits c))
                  c3)
             (capacityText env c)
         else if layout (settings c) = LevelCardLayout_percentage then
           Some (setContent ''percentage-value-container''
                   (createPercentLayout env ''N/A'' (valueTextStyle env c ''N/A'')) c3)
         else Some c3)"
  using assms
  by (auto simp add: updateValueElement_def overlayFill_def Let_def capacityText_def valueTextStyle_def
      volumeTextStyle_def split: option.splits Option.bind_splits)

lemma getTooltipContent_nonnumeric:
  assumes "\<not> isNumber (snd m)"
  shows "\<exists>markup. getTooltipContent env (Some m) c =
           Some (markup, c\<lparr>tooltipLevelColor := cp_update env (tooltipLevelColor c) (JString ''N/A''),
                          tooltipDateFormat := df_update env (tooltipDateFormat c) (fst m)\<rparr>)"
  using assms by (simp add: getTooltipContent_def Let_def)

lemma updateTooltip_nonnumeric:
  assumes "\<not> isNumber (snd m)"
  shows "\<exists>c'. updateTooltip env m c = Some c' \<and> dom c' = dom c
           \<and> tankColor c' = tankColor c \<and> liquidColor c' = liquidColor c
           \<and> valueColor c' = valueColor c
           \<and> backgroundOverlayColor c' = backgroundOverlayColor c"
proof -
  from getTooltipContent_nonnumeric [OF assms, of env c] obtain markup where
    "getTooltipContent env (Some m) c =
       Some (markup, c\<lparr>tooltipLevelColor := cp_update env (tooltipLevelColor c) (JString ''N/A''),
                      tooltipDateFormat := df_update env (tooltipDateFormat c) (fst m)\<rparr>)"
    by blast
  then show ?thesis
    by (simp add: updateTooltip_def Let_def split: option.splits)
qed

lemma updateShapeColor_fields [simp]:
  "settings (updateShapeColor env v c) = settings c"
  "svgParams (updateShapeColor env v c) = svgParams c"
  "shape (updateShapeColor env v c) = shape c"
  "overlayContainer (updateShapeColor env v c) = overlayContainer c"
  "widgetUnits (updateShapeColor env v c) = widgetUnits c"
  "volume_of (updateShapeColor env v c) = volume_of c"
  "tankColor (updateShapeColor env v c) = cp_update env (tankColor c) (JNumber v)"
  "liquidColor (updateShapeColor env v c) = liquidColor c"
  "valueColor (updateShapeColor env v c) = valueColor c"
  "backgroundOverlayColor (updateShapeColor env v c) = backgroundOverlayColor c"
  by (simp_all add: updateShapeColor_def Let_def)

lemma updateLevel_fields [simp]:
  "settings (updateLevel env y p ign c) = settings c"
  "svgParams (updateLevel env y p ign c) = svgParams c"
  "shape (updateLevel env y p ign c) = shape c"
  "overlayContainer (updateLevel env y p ign c) = overlayContainer c"
  "widgetUnits (updateLevel env y p ign c) = widgetUnits c"
  "volume_of (updateLevel env y p ign c) = volume_of c"
  "tankColor (updateLevel env y p ign c) = tankColor c"
  "liquidColor (updateLevel env y p ign c) = cp_update env (liquidColor c) (JNumber p)"
  "valueColor (updateLevel env y p ign c) = valueColor c"
  "backgroundOverlayColor (updateLevel env y p ign c) = backgroundOverlayColor c"
  by (simp_all add: updateLevel_def Let_def)

lemma dom_updateShapeColor:
  "dom (updateShapeColor env v c) = map (shapeStep env v c) (dom c)"
  by (auto simp: updateShapeColor_def Let_def shapeStep_def)

lemma dom_overlayFill: "dom (overlayFill c) = map (overlayStep c) (dom c)"
  by (cases "overlayContainer c") (simp_all add: overlayFill_def overlayStep_def [abs_def])

lemma overlayStep_cong:
  "overlayContainer a = overlayContainer b \<Longrightarrow>
   backgroundOverlayColor a = backgroundOverlayColor b \<Longrightarrow> overlayStep a = overlayStep b"
  by (intro ext) (simp add: overlayStep_def split: option.splits)

lemma capacityText_frame [simp]:
  "capacityText env (updateLevel env' y p ign c) = capacityText env c"
  "capacityText env (updateShapeColor env' v c) = capacityText env c"
  by (simp_all add: capacityText_def)

lemma valueTextStyle_frame [simp]:
  "valueTextStyle env (updateLevel env' y p ign c) r = valueTextStyle env c r"
  "valueTextStyle env (updateShapeColor env' v c) r = valueTextStyle env c r"
  "volumeTextStyle env (updateLevel env' y p ign c) = volumeTextStyle env c"
  "volumeTextStyle env (updateShapeColor env' v c) = volumeTextStyle env c"
  by (simp_all add: valueTextStyle_def volumeTextStyle_def)

lemma nonnumeric_tick:
  assumes datum: "latestDatum c = Some m"
    and defined: "isDefinedAndNotNull (snd m)"
    and nonnumeric: "\<not> isNumber (snd m)"
    and template: "svgParams c = Some params"
  shows "(readoutMarkup env c ''N/A'' = None \<longrightarrow> updateData env ign c = None) \<and>
         (\<forall>markup. readoutMarkup env c ''N/A'' = Some markup \<longrightarrow>
            (\<exists>c'. updateData env ign c = Some c'
               \<and> tankColor c' = cp_update env (tankColor c) (JNumber (Num 0))
               \<and> liquidColor c' = cp_update env (liquidColor c) (JNumber (Num 0))
               \<and> backgroundOverlayColor c' = cp_update env (backgroundOverlayColor c) (JNumber (Num 0))
               \<and> valueColor c' = cp_update env (valueColor c) (JString ''N/A'')
               \<and> dom c' = map (tickStep env ign c (Num 0) (Num (min_l (limits params))) markup) (dom c)))"
proof -
  define c1 where "c1 = updateLevel env (Num (min_l (limits params))) (Num 0) ign
                          (updateShapeColor env (Num 0) c)"
  have svg: "updateSvg env (Num 0) ign c = Some c1"
    using template by (simp add: updateSvg_def c1_def calculatePosition_def js_ge_def Let_def)
  have run: "updateData env ign c =
      (case updateValueElement env (snd m) (Num 0) c1 of
         None \<Rightarrow> None
       | Some c2 \<Rightarrow> if showTooltip (settings c2) then updateTooltip env m c2 else Some c2)"
    using datum defined nonnumeric svg
    by (simp add: updateData_def split: option.splits)
  have dom1: "dom c1 = map (levelStep env (Num (min_l (limits params))) (Num 0) ign c
                              \<circ> shapeStep env (Num 0) c) (dom c)"
    by (simp add: c1_def dom_updateLevel dom_updateShapeColor levelStep_def)
  show ?thesis
  proof (intro conjI allI impI)
    assume "readoutMarkup env c ''N/A'' = None"
    then have "updateValueElement env (snd m) (Num 0) c1 = None"
      using nonnumeric
      by (simp add: updateValueElement_nonnumeric readoutMarkup_def c1_def Let_def split: if_splits)
    then show "updateData env ign c = None"
      by (simp add: run)
  next
    fix markup
    assume mk: "readoutMarkup env c ''N/A'' = Some markup"
    define c3 where "c3 = overlayFill (c1\<lparr>valueColor := cp_update env (valueColor c1) (JString ''N/A''),
                              backgroundOverlayColor :=
                                cp_update env (backgroundOverlayColor c1) (JNumber (Num 0))\<rparr>)"
    define c2 where "c2 = setContent (valueContainer c) markup c3"
    have val: "updateValueElement env (snd m) (Num 0) c1 = Some c2"
      using nonnumeric mk
      by (auto simp add: updateValueElement_nonnumeric readoutMarkup_def c1_def c2_def c3_def
          valueContainer_def setContent_def Let_def split: if_splits)
    have overlay: "overlayStep (c1\<lparr>valueColor := cp_update env (valueColor c1) (JString ''N/A''),
                              backgroundOverlayColor :=
                                cp_update env (backgroundOverlayColor c1) (JNumber (Num 0))\<rparr>)
        = overlayStep (c\<lparr>backgroundOverlayColor :=
                                cp_update env (backgroundOverlayColor c) (JNumber (Num 0))\<rparr>)"
      by (rule overlayStep_cong) (simp_all add: c1_def)
    have dom2: "dom c2 = map (tickStep env ign c (Num 0) (Num (min_l (limits params))) markup) (dom c)"
      by (simp add: c2_def c3_def dom_overlayFill overlay dom1 tickStep_def Let_def)
    have cols: "tankColor c2 = cp_update env (tankColor c) (JNumber (Num 0))"
      "liquidColor c2 = cp_update env (liquidColor c) (JNumber (Num 0))"
      "backgroundOverlayColor c2 = cp_update env (backgroundOverlayColor c) (JNumber (Num 0))"
      "valueColor c2 = cp_update env (valueColor c) (JString ''N/A'')"
      by (simp_all add: c2_def c3_def c1_def)
    show "\<exists>c'. updateData env ign c = Some c'
               \<and> tankColor c' = cp_update env (tankColor c) (JNumber (Num 0))
               \<and> liquidColor c' = cp_update env (liquidColor c) (JNumber (Num 0))
               \<and> backgroundOverlayColor c' = cp_update env (backgroundOverlayColor c) (JNumber (Num 0))
               \<and> valueColor c' = cp_update env (valueColor c) (JString ''N/A'')
               \<and> dom c' = map (tickStep env ign c (Num 0) (Num (min_l (limits params))) markup) (dom c)"
    proof (cases "showTooltip (settings c2)")
      case False
      then show ?thesis using val dom2 cols by (simp add: run)
    next
      case True
      from updateTooltip_nonnumeric [OF nonnumeric, of env c2] obtain c' where
        "updateTooltip env m c2 = Some c'" "dom c' = dom c2" "tankColor c' = tankColor c2"
        "liquidColor c' = liquidColor c2" "valueColor c' = valueColor c2"
        "backgroundOverlayColor c' = backgroundOverlayColor c2"
        by blast
      then show ?thesis using True val dom2 cols by (simp add: run)
    qed
  qed
qed

lemma shapeStep_geometry [simp]:
  "classes (shapeStep env v c e) = classes e"
  "css (shapeStep env v c e) = css e"
  "fx (shapeStep env v c e) = fx e"
  "html (shapeStep env v c e) = html e"
  "hasClass cl (shapeStep env v c e) = hasClass cl e"
  by (simp_all add: shapeStep_def Let_def element_ops hasClass_def)

lemma overlayStep_geometry [simp]:
  "classes (overlayStep c e) = classes e"
  "css (overlayStep c e) = css e"
  "fx (overlayStep c e) = fx e"
  "html (overlayStep c e) = html e"
  "hasClass cl (overlayStep c e) = hasClass cl e"
  by (simp_all add: overlayStep_def element_ops hasClass_def split: option.splits)

lemma levelStep_classes [simp]:
  "classes (levelStep env y p ign c e) = classes e"
  "hasClass cl (levelStep env y p ign c e) = hasClass cl e"
  "html (levelStep env y p ign c e) = html e"
  by (simp_all add: levelStep_def Let_def element_ops hasClass_def)

lemma movedVia_geometry:
  assumes "movedVia ign prop y e0 e1"
    and "css e0 = css e" "fx e0 = fx e" "css e2 = css e1" "fx e2 = fx e1"
  shows "movedVia ign prop y e e2"
  using assms by (cases ign) (simp_all add: movedVia_def)

lemma tickStep_geometry:
  "css (tickStep env ign c p y markup e) = css (levelStep env y p ign c (shapeStep env p c e))"
  "fx (tickStep env ign c p y markup e) = fx (levelStep env y p ign c (shapeStep env p c e))"
  "classes (tickStep env ign c p y markup e) = classes e"
  by (simp_all add: tickStep_def Let_def set_html_def)

lemma tickStep_fill:
  assumes "hasClass ''tb-liquid-fill'' e"
  shows "movedVia ign ''y'' y e (tickStep env ign c p y markup e)"
proof (rule movedVia_geometry)
  show "movedVia ign ''y'' y (shapeStep env p c e) (levelStep env y p ign c (shapeStep env p c e))"
    using assms by (intro levelStep_fill) simp
qed (simp_all add: tickStep_geometry)

lemma tickStep_surface:
  assumes "hasClass ''tb-liquid-surface'' e"
  shows "movedVia ign (if shape c = JString (Shapes_vCylinder env) then ''cy'' else ''y'') y e
           (tickStep env ign c p y markup e)"
proof (rule movedVia_geometry)
  show "movedVia ign (if shape c = JString (Shapes_vCylinder env) then ''cy'' else ''y'') y
          (shapeStep env p c e) (levelStep env y p ign c (shapeStep env p c e))"
    using assms by (intro levelStep_surface) simp
qed (simp_all add: tickStep_geometry)

lemma tickStep_readout:
  assumes "markup \<noteq> []" and "hasClass (valueContainer c) e"
  shows "html (tickStep env ign c p y markup e) = markup"
  using assms by (simp add: tickStep_def Let_def set_html_def)

lemma readoutMarkup_percentage:
  "layout (settings c) \<noteq> LevelCardLayout_absolute \<Longrightarrow> readoutMarkup env c r \<noteq> None"
  by (simp add: readoutMarkup_def)

lemma tickStep_demo_fill:
  "fx (tickStep demo_env False (demo_rendered v) (Num 0) (Num 180) ''N/A'' (demo_template ! 1))
     = [(''y'', Num 180, 500)]"
  by (simp add: tickStep_def levelStep_def shapeStep_def overlayStep_def Let_def element_ops
      hasClass_def demo_template_def demo_element_def demo_shape valueContainer_def
      demo_rendered_def demo_component_def demo_settings_def)

text \<open>
  C4. For every measurement whose value is defined but not a number, the percentage is
  0: the three colour processors that take the percentage are updated with 0, and the
  geometry is evaluated at 0 percent, every liquid-fill and liquid-surface element being
  moved to \<open>calculatePosition 0 limits\<close>. The read-out is tracked apart from it: the
  value colour processor is updated with ''N/A'' and the element of the read-out receives
  the markup of ''N/A'', not of a number. The tick completes whenever that markup can be
  built, which is always so outside the absolute layout (there it needs the text of the
  vessel capacity); when it cannot, the tick throws.
\<close>

theorem nonnumeric_value_percentage_zero:
  assumes datum: "latestDatum c = Some m"
    and defined: "isDefinedAndNotNull (snd m)"
    and nonnumeric: "\<not> isNumber (snd m)"
    and template: "svgParams c = Some params"
  shows "(readoutMarkup env c ''N/A'' = None \<longrightarrow> updateData env ign c = None) \<and>
         (layout (settings c) \<noteq> LevelCardLayout_absolute \<longrightarrow> readoutMarkup env c ''N/A'' \<noteq> None) \<and>
         (\<forall>markup. readoutMarkup env c ''N/A'' = Some markup \<longrightarrow>
            (\<exists>c'. updateData env ign c = Some c'
               \<and> tankColor c' = cp_update env (tankColor c) (JNumber (Num 0))
               \<and> liquidColor c' = cp_update env (liquidColor c) (JNumber (Num 0))
               \<and> backgroundOverlayColor c' =
                   cp_update env (backgroundOverlayColor c) (JNumber (Num 0))
               \<and> valueColor c' = cp_update env (valueColor c) (JString ''N/A'')
               \<and> length (dom c') = length (dom c)
               \<and> (\<forall>i<length (dom c).
                    (hasClass ''tb-liquid-fill'' (dom c ! i) \<longrightarrow>
                       movedVia ign ''y'' (calculatePosition (Num 0) (limits params))
                         (dom c ! i) (dom c' ! i)) \<and>
                    (hasClass ''tb-liquid-surface'' (dom c ! i) \<longrightarrow>
                       movedVia ign
                         (if shape c = JString (Shapes_vCylinder env) then ''cy'' else ''y'')
                         (calculatePosition (Num 0) (limits params)) (dom c ! i) (dom c' ! i)) \<and>
                    (markup \<noteq> [] \<and> hasClass (valueContainer c) (dom c ! i) \<longrightarrow>
                       html (dom c' ! i) = markup))))"
proof (intro conjI allI impI)
  assume "readoutMarkup env c ''N/A'' = None"
  then show "updateData env ign c = None"
    using nonnumeric_tick [OF assms, of env ign] by simp
next
  assume "layout (settings c) \<noteq> LevelCardLayout_absolute"
  then show "readoutMarkup env c ''N/A'' \<noteq> None"
    by (rule readoutMarkup_percentage)
next
  fix markup
  assume "readoutMarkup env c ''N/A'' = Some markup"
  with nonnumeric_tick [OF assms, of env ign] obtain c' where
    run: "updateData env ign c = Some c'"
    and cols: "tankColor c' = cp_update env (tankColor c) (JNumber (Num 0))"
      "liquidColor c' = cp_update env (liquidColor c) (JNumber (Num 0))"
      "backgroundOverlayColor c' = cp_update env (backgroundOverlayColor c) (JNumber (Num 0))"
      "valueColor c' = cp_update env (valueColor c) (JString ''N/A'')"
    and dom: "dom c' = map (tickStep env ign c (Num 0) (Num (min_l (limits params))) markup) (dom c)"
    by blast
  have zero: "calculatePosition (Num 0) (limits params) = Num (min_l (limits params))"
    by (simp add: calculatePosition_def js_ge_def)
  have "(hasClass ''tb-liquid-fill'' (dom c ! i) \<longrightarrow>
           movedVia ign ''y'' (calculatePosition (Num 0) (limits params)) (dom c ! i) (dom c' ! i)) \<and>
        (hasClass ''tb-liquid-surface'' (dom c ! i) \<longrightarrow>
           movedVia ign (if shape c = JString (Shapes_vCylinder env) then ''cy'' else ''y'')
             (calculatePosition (Num 0) (limits params)) (dom c ! i) (dom c' ! i)) \<and>
        (markup \<noteq> [] \<and> hasClass (valueContainer c) (dom c ! i) \<longrightarrow> html (dom c' ! i) = markup)"
    if "i < length (dom c)" for i
    using that tickStep_fill [of "dom c ! i" ign "Num (min_l (limits params))" env c "Num 0" markup]
      tickStep_surface [of "dom c ! i" ign c env "Num (min_l (limits params))" "Num 0" markup]
      tickStep_readout [of markup c "dom c ! i" env ign "Num 0" "Num (min_l (limits params))"]
    by (simp add: dom zero)
  then show "\<exists>c'. updateData env ign c = Some c'
               \<and> tankColor c' = cp_update env (tankColor c) (JNumber (Num 0))
               \<and> liquidColor c' = cp_update env (liquidColor c) (JNumber (Num 0))
               \<and> backgroundOverlayColor c' =
                   cp_update env (backgroundOverlayColor c) (JNumber (Num 0))
               \<and> valueColor c' = cp_update env (valueColor c) (JString ''N/A'')
               \<and> length (dom c') = length (dom c)
               \<and> (\<forall>i<length (dom c).
                    (hasClass ''tb-liquid-fill'' (dom c ! i) \<longrightarrow>
                       movedVia ign ''y'' (calculatePosition (Num 0) (limits params))
                         (dom c ! i) (dom c' ! i)) \<and>
                    (hasClass ''tb-liquid-surface'' (dom c ! i) \<longrightarrow>
                       movedVia ign
                         (if shape c = JString (Shapes_vCylinder env) then ''cy'' else ''y'')
                         (calculatePosition (Num 0) (limits params)) (dom c ! i) (dom c' ! i)) \<and>
                    (markup \<noteq> [] \<and> hasClass (valueContainer c) (dom c ! i) \<longrightarrow>
                       html (dom c' ! i) = markup))"
    using run cols dom by simp
qed

text \<open>
  The concrete widget showing 25 percent receives the string ''abc'': the read-out
  becomes ''N/A'' and the liquid is sent to 180, the coordinate of 0 percent.
\<close>

theorem nonnumeric_value_percentage_zero_witness:
  "html (rendered (updateData demo_env False (demo_rendered (JString ''abc''))) ! 5) = ''N/A'' \<and>
   movedVia False ''y'' (Num 180) (demo_template ! 1)
     (rendered (updateData demo_env False (demo_rendered (JString ''abc''))) ! 1) \<and>
   movedVia False ''cy'' (Num 180) (demo_template ! 2)
     (rendered (updateData demo_env False (demo_rendered (JString ''abc''))) ! 2)"
proof -
  have defined: "isDefinedAndNotNull (snd (Num 1000, JString ''abc''))"
    and nonnumeric: "\<not> isNumber (snd (Num 1000, JString ''abc''))"
    by (simp_all add: isDefinedAndNotNull_def)
  from nonnumeric_value_percentage_zero [OF demo_datum defined nonnumeric demo_params, of demo_env False]
    demo_readout [of "JString ''abc''"]
  obtain c' where run: "updateData demo_env False (demo_rendered (JString ''abc'')) = Some c'"
    and els: "\<forall>i<length (dom (demo_rendered (JString ''abc''))).
                 (hasClass ''tb-liquid-fill'' (dom (demo_rendered (JString ''abc'')) ! i) \<longrightarrow>
                    movedVia False ''y''
                      (calculatePosition (Num 0) (limits \<lparr>svg_url = ''v-cylinder.svg'', limits = \<lparr>min_l = 180, max_l = 20\<rparr>\<rparr>))
                      (dom (demo_rendered (JString ''abc'')) ! i) (dom c' ! i)) \<and>
                 (hasClass ''tb-liquid-surface'' (dom (demo_rendered (JString ''abc'')) ! i) \<longrightarrow>
                    movedVia False
                      (if shape (demo_rendered (JString ''abc'')) = JString (Shapes_vCylinder demo_env)
                       then ''cy'' else ''y'')
                      (calculatePosition (Num 0) (limits \<lparr>svg_url = ''v-cylinder.svg'', limits = \<lparr>min_l = 180, max_l = 20\<rparr>\<rparr>))
                      (dom (demo_rendered (JString ''abc'')) ! i) (dom c' ! i)) \<and>
                 (''N/A'' \<noteq> [] \<and> hasClass (valueContainer (demo_rendered (JString ''abc'')))
                                      (dom (demo_rendered (JString ''abc'')) ! i) \<longrightarrow>
                    html (dom c' ! i) = ''N/A'')"
    by blast
  have at0: "calculatePosition (Num 0) \<lparr>min_l = 180, max_l = 20\<rparr> = Num 180"
    by (simp add: calculatePosition_def js_ge_def)
  from els [rule_format, of 5] els [rule_format, of 1] els [rule_format, of 2]
  show ?thesis
    by (simp add: run rendered_def demo_dom demo_shape demo_template_def demo_element_def
        hasClass_def at0)
qed

section \<open>Invalid measurements\<close>

text \<open>
  C3 as stated fails on the code. The claim says that for a value that is not a number
  or is absent the tick skips the update of the position while the label shows ''N/A''.
  On the concrete widget, showing 25 percent with the liquid at 140: the value ''abc''
  queues an animation of the fill body to 180, so the position is updated; and the
  value \<^verbatim>\<open>null\<close> leaves the label at ''25'', which is not ''N/A''.
\<close>

theorem skipped_position_update_counterexample:
  "fx (demo_template ! 1) = [] \<and>
   fx (rendered (updateData demo_env False (demo_rendered (JString ''abc''))) ! 1)
     = [(''y'', Num 180, 500)] \<and>
   html (dom (demo_rendered JNull) ! 5) = ''25'' \<and>
   html (rendered (updateData demo_env False (demo_rendered JNull)) ! 5) = ''25''"
proof -
  have defined: "isDefinedAndNotNull (snd (Num 1000, JString ''abc''))"
    and nonnumeric: "\<not> isNumber (snd (Num 1000, JString ''abc''))"
    by (simp_all add: isDefinedAndNotNull_def)
  from nonnumeric_tick [OF demo_datum defined nonnumeric demo_params, of demo_env False]
    demo_readout [of "JString ''abc''"]
  obtain c' where run: "updateData demo_env False (demo_rendered (JString ''abc'')) = Some c'"
    and els: "dom c' = map (tickStep demo_env False (demo_rendered (JString ''abc'')) (Num 0)
                             (Num (min_l (limits \<lparr>svg_url = ''v-cylinder.svg'',
                                                   limits = \<lparr>min_l = 180, max_l = 20\<rparr>\<rparr>))) ''N/A'')
                          (dom (demo_rendered (JString ''abc'')))"
    by blast
  have moved: "fx (rendered (updateData demo_env False (demo_rendered (JString ''abc''))) ! 1)
                 = [(''y'', Num 180, 500)]"
    using tickStep_demo_fill [of "JString ''abc''"]
    by (simp add: run rendered_def els demo_dom) (simp add: demo_template_def)
  have idle: "updateData demo_env False (demo_rendered JNull) = Some (demo_rendered JNull)"
    by (simp add: updateData_def demo_datum isDefinedAndNotNull_def)
  show ?thesis
    using moved
    by (simp add: idle rendered_def demo_dom) (simp add: demo_template_def demo_element_def)
qed

text \<open>
  C3, amended. On a rendered widget (its template resolved): when the value is defined
  but not a number the tick does not skip the position update, it moves the liquid fill
  and surface to the coordinate of 0 percent, \<open>limits.min\<close>, and the read-out element
  receives the markup of ''N/A''; the tick completes whenever that markup can be built,
  always so outside the absolute layout. When the value is undefined or null, or no
  measurement has arrived, the tick changes nothing: the label keeps the text it had.
\<close>

theorem nonnumeric_or_absent_tick:
  assumes rendered: "svg c" and template: "svgParams c = Some params"
  shows "(\<forall>m. latestDatum c = Some m \<and> isDefinedAndNotNull (snd m) \<and> \<not> isNumber (snd m) \<longrightarrow>
            (layout (settings c) \<noteq> LevelCardLayout_absolute \<longrightarrow>
               readoutMarkup env c ''N/A'' \<noteq> None) \<and>
            (\<forall>markup. readoutMarkup env c ''N/A'' = Some markup \<longrightarrow>
               (\<exists>c'. update env ign c = Some c'
                  \<and> length (dom c') = length (dom c)
                  \<and> (\<forall>i<length (dom c).
                       (hasClass ''tb-liquid-fill'' (dom c ! i) \<longrightarrow>
                          movedVia ign ''y'' (Num (min_l (limits params))) (dom c ! i) (dom c' ! i)) \<and>
                       (hasClass ''tb-liquid-surface'' (dom c ! i) \<longrightarrow>
                          movedVia ign
                            (if shape c = JString (Shapes_vCylinder env) then ''cy'' else ''y'')
                            (Num (min_l (limits params))) (dom c ! i) (dom c' ! i)) \<and>
                       (markup \<noteq> [] \<and> hasClass (valueContainer c) (dom c ! i) \<longrightarrow>
                          html (dom c' ! i) = markup))))) \<and>
         ((latestDatum c = None \<or> (\<exists>m. latestDatum c = Some m \<and> \<not> isDefinedAndNotNull (snd m))) \<longrightarrow>
            update env ign c = Some c)"
proof (intro conjI allI impI)
  fix m
  assume "latestDatum c = Some m \<and> isDefinedAndNotNull (snd m) \<and> \<not> isNumber (snd m)"
    and "layout (settings c) \<noteq> LevelCardLayout_absolute"
  then show "readoutMarkup env c ''N/A'' \<noteq> None"
    by (simp add: readoutMarkup_percentage)
next
  fix m markup
  assume m: "latestDatum c = Some m \<and> isDefinedAndNotNull (snd m) \<and> \<not> isNumber (snd m)"
    and mk: "readoutMarkup env c ''N/A'' = Some markup"
  then have "latestDatum c = Some m" "isDefinedAndNotNull (snd m)" "\<not> isNumber (snd m)"
    by simp_all
  from nonnumeric_tick [OF this template, of env ign] mk obtain c' where
    run: "updateData env ign c = Some c'"
    and dom: "dom c' = map (tickStep env ign c (Num 0) (Num (min_l (limits params))) markup) (dom c)"
    by blast
  have "(hasClass ''tb-liquid-fill'' (dom c ! i) \<longrightarrow>
           movedVia ign ''y'' (Num (min_l (limits params))) (dom c ! i) (dom c' ! i)) \<and>
        (hasClass ''tb-liquid-surface'' (dom c ! i) \<longrightarrow>
           movedVia ign (if shape c = JString (Shapes_vCylinder env) then ''cy'' else ''y'')
             (Num (min_l (limits params))) (dom c ! i) (dom c' ! i)) \<and>
        (markup \<noteq> [] \<and> hasClass (valueContainer c) (dom c ! i) \<longrightarrow> html (dom c' ! i) = markup)"
    if "i < length (dom c)" for i
    using that tickStep_fill [of "dom c ! i" ign "Num (min_l (limits params))" env c "Num 0" markup]
      tickStep_surface [of "dom c ! i" ign c env "Num (min_l (limits params))" "Num 0" markup]
      tickStep_readout [of markup c "dom c ! i" env ign "Num 0" "Num (min_l (limits params))"]
    by (simp add: dom)
  then show "\<exists>c'. update env ign c = Some c'
                  \<and> length (dom c') = length (dom c)
                  \<and> (\<forall>i<length (dom c).
                       (hasClass ''tb-liquid-fill'' (dom c ! i) \<longrightarrow>
                          movedVia ign ''y'' (Num (min_l (limits params))) (dom c ! i) (dom c' ! i)) \<and>
                       (hasClass ''tb-liquid-surface'' (dom c ! i) \<longrightarrow>
                          movedVia ign
                            (if shape c = JString (Shapes_vCylinder env) then ''cy'' else ''y'')
                            (Num (min_l (limits params))) (dom c ! i) (dom c' ! i)) \<and>
                       (markup \<noteq> [] \<and> hasClass (valueContainer c) (dom c ! i) \<longrightarrow>
                          html (dom c' ! i) = markup))"
    using run dom rendered by (simp add: update_def)
next
  assume "latestDatum c = None \<or> (\<exists>m. latestDatum c = Some m \<and> \<not> isDefinedAndNotNull (snd m))"
  then show "update env ign c = Some c"
    by (auto simp: update_def updateData_def)
qed

text \<open>
  The concrete widget: the value \<^verbatim>\<open>true\<close> sends the liquid to 180 and the read-out
  to ''N/A''; the value \<^verbatim>\<open>undefined\<close> changes nothing.
\<close>

theorem nonnumeric_or_absent_tick_witness:
  "html (rendered (update demo_env True (demo_rendered (JBoolean True))) ! 5) = ''N/A'' \<and>
   movedVia True ''y'' (Num 180) (demo_template ! 1)
     (rendered (update demo_env True (demo_rendered (JBoolean True))) ! 1) \<and>
   update demo_env True (demo_rendered JUndefined) = Some (demo_rendered JUndefined)"
proof -
  note tick = nonnumeric_or_absent_tick [OF demo_svg demo_params, of _ demo_env True]
  have "latestDatum (demo_rendered (JBoolean True)) = Some (Num 1000, JBoolean True) \<and>
        isDefinedAndNotNull (snd (Num 1000, JBoolean True)) \<and>
        \<not> isNumber (snd (Num 1000, JBoolean True))"
    by (simp add: demo_datum isDefinedAndNotNull_def)
  with tick [of "JBoolean True"] demo_readout [of "JBoolean True"]
  obtain c' where run: "update demo_env True (demo_rendered (JBoolean True)) = Some c'"
    and els: "\<forall>i<length (dom (demo_rendered (JBoolean True))).
                 (hasClass ''tb-liquid-fill'' (dom (demo_rendered (JBoolean True)) ! i) \<longrightarrow>
                    movedVia True ''y''
                      (Num (min_l (limits \<lparr>svg_url = ''v-cylinder.svg'', limits = \<lparr>min_l = 180, max_l = 20\<rparr>\<rparr>)))
                      (dom (demo_rendered (JBoolean True)) ! i) (dom c' ! i)) \<and>
                 (hasClass ''tb-liquid-surface'' (dom (demo_rendered (JBoolean True)) ! i) \<longrightarrow>
                    movedVia True
                      (if shape (demo_rendered (JBoolean True)) = JString (Shapes_vCylinder demo_env)
                       then ''cy'' else ''y'')
                      (Num (min_l (limits \<lparr>svg_url = ''v-cylinder.svg'', limits = \<lparr>min_l = 180, max_l = 20\<rparr>\<rparr>)))
                      (dom (demo_rendered (JBoolean True)) ! i) (dom c' ! i)) \<and>
                 (''N/A'' \<noteq> [] \<and> hasClass (valueContainer (demo_rendered (JBoolean True)))
                                      (dom (demo_rendered (JBoolean True)) ! i) \<longrightarrow>
                    html (dom c' ! i) = ''N/A'')"
    by blast
  have "\<exists>m. latestDatum (demo_rendered JUndefined) = Some m \<and> \<not> isDefinedAndNotNull (snd m)"
    by (simp add: demo_datum isDefinedAndNotNull_def)
  with tick [of JUndefined]
  have idle: "update demo_env True (demo_rendered JUndefined) = Some (demo_rendered JUndefined)"
    by blast
  from els [rule_format, of 5] els [rule_format, of 1]
  show ?thesis
    by (simp add: run idle rendered_def demo_dom demo_shape demo_template_def demo_element_def
        hasClass_def)
qed

end
